theory Spec2Isabelle
  imports Main "HOL-Library.Char_ord" "HOL-Library.List_Lexorder" "HOL-Library.Product_Lexorder"
    "HOL-Library.Multiset"
begin

section \<open>Values, rows and the relational data service\<close>

text \<open>
  The hooks of the repository talk to a hosted relational service through the query
  builder \<^verbatim>\<open>supabase.from(relation)\<close>. The builder and the service are external
  collaborators, so this section is a model of their contract (select with filters,
  ordering and limit, insert, update, delete; every call answers with data or with an
  error), written once and used by every operation below. The operations themselves
  are translated from the source files in the sections that follow.

  A JavaScript value that reaches the service is a JSON value. An object, and so a row
  of a relation, is an association list from field names to values; a field that is
  absent reads as \<open>JNull\<close>, which is also SQL's NULL.
\<close>

datatype json = JNull | JStr string | JNum int | JBool bool | JObj "(string \<times> json) list"

type_synonym row = "(string \<times> json) list"

definition col :: "row \<Rightarrow> string \<Rightarrow> json" where
  "col r c = (case map_of r c of None \<Rightarrow> JNull | Some v \<Rightarrow> v)"

text \<open>Assigning one field of an object: the field keeps its place, a new field goes last.\<close>

fun set_col :: "string \<Rightarrow> json \<Rightarrow> row \<Rightarrow> row" where
  "set_col c v [] = [(c, v)]"
| "set_col c v ((k, x) # r) = (if k = c then (c, v) # r else (k, x) # set_col c v r)"

text \<open>\<^verbatim>\<open>{...r, ...vals}\<close>, and the SET clause of an update: the fields of \<open>vals\<close> overwrite.\<close>

definition assign :: "row \<Rightarrow> row \<Rightarrow> row" where
  "assign vals r = fold (\<lambda>(c, v). set_col c v) vals r"

text \<open>JavaScript truthiness, for \<^verbatim>\<open>if (x)\<close>, \<^verbatim>\<open>!x\<close> and \<^verbatim>\<open>x || y\<close>.\<close>

fun truthy :: "json \<Rightarrow> bool" where
  "truthy JNull = False"
| "truthy (JStr s) = (s \<noteq> [])"
| "truthy (JNum n) = (n \<noteq> 0)"
| "truthy (JBool b) = b"
| "truthy (JObj fs) = True"

text \<open>A value of type \<^verbatim>\<open>string | null\<close>; the empty string is falsy, as null is.\<close>

fun truthy_id :: "string option \<Rightarrow> bool" where
  "truthy_id None = False"
| "truthy_id (Some s) = (s \<noteq> [])"

subsection \<open>Pattern matching of ILIKE\<close>

text \<open>
  SQL's LIKE: \<open>%\<close> matches any sequence of characters, \<open>_\<close> any single character, a
  backslash takes the next character of the pattern literally. ILIKE compares without
  regard to case (ASCII letters here). The service's query syntax also reads \<open>*\<close> in a
  pattern as \<open>%\<close>.
\<close>

fun like_match :: "string \<Rightarrow> string \<Rightarrow> bool" where
  "like_match [] s = (s = [])"
| "like_match (p # ps) s =
     (if p = CHR ''%'' then
        like_match ps s \<or> (case s of [] \<Rightarrow> False | c # t \<Rightarrow> like_match (p # ps) t)
      else if p = CHR ''_'' then
        (case s of [] \<Rightarrow> False | c # t \<Rightarrow> like_match ps t)
      else if p = CHR 0x5C then
        (case ps of [] \<Rightarrow> False
         | q # qs \<Rightarrow> (case s of [] \<Rightarrow> False | c # t \<Rightarrow> c = q \<and> like_match qs t))
      else (case s of [] \<Rightarrow> False | c # t \<Rightarrow> c = p \<and> like_match ps t))"

definition to_lower :: "char \<Rightarrow> char" where
  "to_lower c =
     (case map_of (zip ''ABCDEFGHIJKLMNOPQRSTUVWXYZ'' ''abcdefghijklmnopqrstuvwxyz'') c of
        None \<Rightarrow> c | Some l \<Rightarrow> l)"

definition star_to_percent :: "char \<Rightarrow> char" where
  "star_to_percent c = (if c = CHR ''*'' then CHR ''%'' else c)"

definition ilike :: "string \<Rightarrow> string \<Rightarrow> bool" where
  "ilike pattern s = like_match (map (to_lower \<circ> star_to_percent) pattern) (map to_lower s)"

subsection \<open>Filters, ordering and requests\<close>

datatype relation = Employer_profiles | Job_descriptions | Cv_match | Cv_metadata

text \<open>
  \<^verbatim>\<open>.eq(column, value)\<close>, \<^verbatim>\<open>.not(column, 'is', null)\<close> and \<^verbatim>\<open>.ilike(column, pattern)\<close>.
  As in SQL, NULL is equal to nothing and matches no pattern.
\<close>

datatype filter = Eq string json | Not_is_null string | Ilike string string

fun holds :: "filter \<Rightarrow> row \<Rightarrow> bool" where
  "holds (Eq c v) r = (v \<noteq> JNull \<and> col r c = v)"
| "holds (Not_is_null c) r = (col r c \<noteq> JNull)"
| "holds (Ilike c p) r = (case col r c of JStr s \<Rightarrow> ilike p s | _ \<Rightarrow> False)"

definition selected :: "filter list \<Rightarrow> row \<Rightarrow> bool" where
  "selected fs r = list_all (\<lambda>f. holds f r) fs"

text \<open>
  \<^verbatim>\<open>.order(column, { ascending: false })\<close>: largest first, and NULL before everything,
  as the database sorts descending. Values are compared by \<open>order_key\<close>: numbers by
  value, strings (timestamps in ISO format among them) lexicographically.
\<close>

fun order_key :: "json \<Rightarrow> nat \<times> int \<times> string" where
  "order_key (JBool b) = (0, (if b then 1 else 0), [])"
| "order_key (JNum n) = (1, n, [])"
| "order_key (JStr s) = (2, 0, s)"
| "order_key (JObj fs) = (3, 0, [])"
| "order_key JNull = (4, 0, [])"

datatype ordering = Unordered | Descending string

fun ordered :: "ordering \<Rightarrow> row list \<Rightarrow> row list" where
  "ordered Unordered rs = rs"
| "ordered (Descending c) rs = rev (sort_key (\<lambda>r. order_key (col r c)) rs)"

fun limited :: "nat option \<Rightarrow> row list \<Rightarrow> row list" where
  "limited None rs = rs"
| "limited (Some n) rs = take n rs"

text \<open>
  The column list of a select: \<^verbatim>\<open>'*'\<close>, named columns, or \<^verbatim>\<open>'*'\<close> with one embedded
  resource \<^verbatim>\<open>alias:foreign_key (columns)\<close> read from a second relation.
\<close>

datatype columns =
    All_columns
  | Columns "string list"
  | All_with_embed string string relation "string list"

datatype request =
    Select relation columns "filter list" ordering "nat option"
  | Insert relation row
  | Update relation row "filter list"
  | Delete relation "filter list"

datatype reply = Data "row list" | Error string | Thrown string

record database =
  employer_profiles :: "row list"
  job_descriptions :: "row list"
  cv_match :: "row list"
  cv_metadata :: "row list"
  serial :: nat

fun rows_of :: "relation \<Rightarrow> database \<Rightarrow> row list" where
  "rows_of Employer_profiles d = employer_profiles d"
| "rows_of Job_descriptions d = job_descriptions d"
| "rows_of Cv_match d = cv_match d"
| "rows_of Cv_metadata d = cv_metadata d"

fun put_rows :: "relation \<Rightarrow> row list \<Rightarrow> database \<Rightarrow> database" where
  "put_rows Employer_profiles rs d = d\<lparr>employer_profiles := rs\<rparr>"
| "put_rows Job_descriptions rs d = d\<lparr>job_descriptions := rs\<rparr>"
| "put_rows Cv_match rs d = d\<lparr>cv_match := rs\<rparr>"
| "put_rows Cv_metadata rs d = d\<lparr>cv_metadata := rs\<rparr>"

definition project :: "string list \<Rightarrow> row \<Rightarrow> row" where
  "project cs r = map (\<lambda>c. (c, col r c)) cs"

definition embed :: "database \<Rightarrow> string \<Rightarrow> relation \<Rightarrow> string list \<Rightarrow> row \<Rightarrow> json" where
  "embed d fk rel cs r =
     (case find (\<lambda>p. holds (Eq ''id'' (col r fk)) p) (rows_of rel d) of
        None \<Rightarrow> JNull
      | Some p \<Rightarrow> JObj (project cs p))"

fun shape :: "database \<Rightarrow> columns \<Rightarrow> row \<Rightarrow> row" where
  "shape d All_columns r = r"
| "shape d (Columns cs) r = project cs r"
| "shape d (All_with_embed alias fk rel cs) r = set_col alias (embed d fk rel cs r) r"

text \<open>
  The relation \<open>employer_profiles\<close> carries a unique constraint on \<open>user_id\<close> (the
  source of \<open>saveProfile\<close> refers to it: "Check if a profile already exists for this
  user to handle the unique constraint"). The service refuses a write that would break
  the constraint and answers with an error.
\<close>

definition unique_user_id :: "row list \<Rightarrow> bool" where
  "unique_user_id rs = distinct (filter (\<lambda>v. v \<noteq> JNull) (map (\<lambda>r. col r ''user_id'') rs))"

fun constraint_ok :: "relation \<Rightarrow> row list \<Rightarrow> bool" where
  "constraint_ok Employer_profiles rs = unique_user_id rs"
| "constraint_ok rel rs = True"

text \<open>
  A row inserted without an id receives one from the database. The model writes the
  generated ids as \<open>row-\<close> followed by a tally of the rows inserted so far.
\<close>

definition with_default_id :: "nat \<Rightarrow> row \<Rightarrow> row" where
  "with_default_id n r =
     (if col r ''id'' = JNull then set_col ''id'' (JStr (''row-'' @ replicate n CHR ''i'')) r
      else r)"

text \<open>
  What the service does with a request it accepts. A select leaves the database as it
  is; a delete removes the rows that satisfy every filter; an update assigns the given
  fields in those rows and answers with them; an insert appends the row.
\<close>

fun exec :: "request \<Rightarrow> database \<Rightarrow> reply \<times> database" where
  "exec (Select rel cols fs ord lim) d =
     (Data (map (shape d cols) (limited lim (ordered ord (filter (selected fs) (rows_of rel d))))), d)"
| "exec (Delete rel fs) d =
     (Data [], put_rows rel (filter (\<lambda>r. \<not> selected fs r) (rows_of rel d)) d)"
| "exec (Update rel vals fs) d =
     (let rs = map (\<lambda>r. if selected fs r then assign vals r else r) (rows_of rel d) in
      if constraint_ok rel rs
      then (Data (map (assign vals) (filter (selected fs) (rows_of rel d))), put_rows rel rs d)
      else (Error ''duplicate key value violates unique constraint'', d))"
| "exec (Insert rel vals) d =
     (let rs = rows_of rel d @ [with_default_id (serial d) vals] in
      if constraint_ok rel rs
      then (Data [], (put_rows rel rs d)\<lparr>serial := Suc (serial d)\<rparr>)
      else (Error ''duplicate key value violates unique constraint'', d))"

section \<open>The client's world\<close>

text \<open>
  Everything an operation can read or change: the database behind the service, the log
  of requests issued against it (oldest first), the notifications shown, the labels of
  the \<^verbatim>\<open>console.error\<close> calls, the query cache of the job description list (the
  data held under the key \<^verbatim>\<open>['jobDescriptions', userId]\<close>, latest entry first), and the
  state held by the shortlist hooks.
\<close>

datatype variant = Default_variant | Destructive

record toast =
  title :: string
  description :: string
  variant :: variant

record matching_session =
  isMatching :: bool
  matchingResults :: "row list option"
  selectedJobId :: "string option"

record world =
  db :: database
  requests :: "request list"
  toasts :: "toast list"
  console_errors :: "string list"
  jd_cache :: "(string option \<times> row list) list"
  jobDescription :: string
  matching :: matching_session

text \<open>
  A call may fail for reasons outside the program: the service answers with an error
  (\<open>Fails\<close>), or the awaited call is rejected (\<open>Throws\<close>). A failed call leaves the
  database as it is. Each operation takes the fate of its calls as a parameter.
\<close>

datatype fault = No_fault | Fails string | Throws string

definition supabase :: "fault \<Rightarrow> request \<Rightarrow> world \<Rightarrow> reply \<times> world" where
  "supabase ft rq w =
     (let w1 = w\<lparr>requests := requests w @ [rq]\<rparr> in
      case ft of
        Throws e \<Rightarrow> (Thrown e, w1)
      | Fails e \<Rightarrow> (Error e, w1)
      | No_fault \<Rightarrow> (case exec rq (db w1) of (rep, d) \<Rightarrow> (rep, w1\<lparr>db := d\<rparr>)))"

definition toast_call :: "string \<Rightarrow> string \<Rightarrow> variant \<Rightarrow> world \<Rightarrow> world" where
  "toast_call t d v w = w\<lparr>toasts := toasts w @ [\<lparr>title = t, description = d, variant = v\<rparr>]\<rparr>"

definition console_error :: "string \<Rightarrow> world \<Rightarrow> world" where
  "console_error label w = w\<lparr>console_errors := console_errors w @ [label]\<rparr>"

text \<open>Picking fields of an object into an object literal; a field that is undefined is
  not sent to the service.\<close>

definition fields :: "string list \<Rightarrow> row \<Rightarrow> row" where
  "fields cs obj = concat (map (\<lambda>c. case map_of obj c of None \<Rightarrow> [] | Some v \<Rightarrow> [(c, v)]) cs)"

section \<open>useJobDescriptions\<close>

text \<open>
  \<^verbatim>\<open>src/components/job-descriptions/hooks/useJobDescriptions.ts\<close>. The hook's \<open>userId\<close>
  state is a parameter of the model.
\<close>

definition transform :: "row \<Rightarrow> row" where
  "transform item =
     set_col ''agent_id'' (col item ''agent_id'')
       (set_col ''employer_profile_id'' (col item ''employer_profile_id'') item)"

definition jd_columns :: columns where
  "jd_columns =
     All_with_embed ''employer_profiles'' ''employer_profile_id'' Employer_profiles
       [''company_name'', ''contact_person'', ''email'', ''phone'']"

definition jd_select :: "string \<Rightarrow> request" where
  "jd_select u =
     Select Job_descriptions jd_columns [Eq ''user_id'' (JStr u)] (Descending ''created_at'') None"

text \<open>The \<open>queryFn\<close> of the query: \<open>Inl\<close> is the error it throws.\<close>

definition queryFn :: "string option \<Rightarrow> fault \<Rightarrow> world \<Rightarrow> (string + row list) \<times> world" where
  "queryFn userId ft w =
     (case userId of
        None \<Rightarrow> (Inr [], w)
      | Some u \<Rightarrow>
          if u = [] then (Inr [], w)
          else (case supabase ft (jd_select u) w of
                  (Data rows, w1) \<Rightarrow> (Inr (map transform rows), w1)
                | (Error e, w1) \<Rightarrow> (Inl e, w1)
                | (Thrown e, w1) \<Rightarrow> (Inl e, w1)))"

text \<open>
  The hook passes \<^verbatim>\<open>useQuery\<close> the key, the function and \<^verbatim>\<open>enabled: !!userId\<close>, and
  nothing else, so the query runs under the defaults of the library: data in the cache
  is stale at once (\<^verbatim>\<open>staleTime\<close> 0), a run whose function throws is repeated up to
  three times (\<^verbatim>\<open>retry\<close> 3), and a run that fails for good leaves in the cache the data
  it held before.

  The fates of the consecutive attempts of a run are a list, the fate of the first
  attempt first; an attempt beyond the end of the list is answered. \<open>fetch n\<close> is a
  run with \<open>n\<close> retries left.
\<close>

fun fate :: "fault list \<Rightarrow> fault" where
  "fate [] = No_fault"
| "fate (ft # fts) = ft"

fun fetch ::
    "nat \<Rightarrow> fault list \<Rightarrow> string option \<Rightarrow> world \<Rightarrow> (string + row list) \<times> world" where
  "fetch 0 fts userId w = queryFn userId (fate fts) w"
| "fetch (Suc n) fts userId w =
     (case queryFn userId (fate fts) w of
        (Inr rows, w1) \<Rightarrow> (Inr rows, w1)
      | (Inl e, w1) \<Rightarrow> fetch n (tl fts) userId w1)"

definition retry :: nat where
  "retry = 3"

text \<open>A run of the query of the hook, to its end: the cache receives the data of a run
  that succeeded.\<close>

definition refetch :: "fault list \<Rightarrow> string option \<Rightarrow> world \<Rightarrow> world" where
  "refetch fts userId w =
     (case fetch retry fts userId w of
        (Inr rows, w1) \<Rightarrow> w1\<lparr>jd_cache := (userId, rows) # jd_cache w1\<rparr>
      | (Inl e, w1) \<Rightarrow> w1)"

text \<open>\<^verbatim>\<open>data: jobDescriptions = []\<close>: the data in the cache, \<^verbatim>\<open>[]\<close> when there is none.\<close>

definition cached :: "string option \<Rightarrow> world \<Rightarrow> row list" where
  "cached userId w = (case map_of (jd_cache w) userId of None \<Rightarrow> [] | Some rows \<Rightarrow> rows)"

text \<open>
  \<open>jobDescriptions\<close>, the list that the hook hands out once its query has settled after
  the hook is mounted with the given \<open>userId\<close>. A disabled query never runs and has no
  data. An enabled one runs, whether the cache holds a list or not, since a cached list
  is stale; the hook then hands out the data in the cache.
\<close>

definition jobDescriptions :: "string option \<Rightarrow> fault list \<Rightarrow> world \<Rightarrow> row list \<times> world" where
  "jobDescriptions userId fts w =
     (if \<not> truthy_id userId then ([], w)
      else (let w1 = refetch fts userId w in (cached userId w1, w1)))"

text \<open>
  \<^verbatim>\<open>await queryClient.invalidateQueries({ queryKey: ['jobDescriptions'] })\<close> in a handler
  of the hook: the queries under the key are marked stale, their data stays, and the
  active one, which is the query of the mounted hook when it is enabled, runs again
  before the call returns. A run that fails does not make the call fail.
\<close>

definition invalidateQueries :: "string option \<Rightarrow> fault list \<Rightarrow> world \<Rightarrow> world" where
  "invalidateQueries userId fts w = (if truthy_id userId then refetch fts userId w else w)"

text \<open>What an async handler resolves to: \<^verbatim>\<open>return;\<close> gives \<open>Undefined\<close>.\<close>

datatype js_value = Undefined | Boolean bool

definition delete_failed :: "world \<Rightarrow> world" where
  "delete_failed w =
     toast_call ''Error'' ''Failed to delete job description'' Destructive
       (console_error ''Delete error:'' w)"

text \<open>
  \<open>confirmed\<close> is the answer to the \<^verbatim>\<open>confirm(...)\<close> prompt, \<open>ft\<close> the fate of the delete,
  \<open>userId\<close> the state of the hook and \<open>fts\<close> the fates of the run of the query that the
  invalidation starts.
\<close>

definition handleDelete ::
    "bool \<Rightarrow> fault \<Rightarrow> string option \<Rightarrow> fault list \<Rightarrow> string \<Rightarrow> world \<Rightarrow> js_value \<times> world" where
  "handleDelete confirmed ft userId fts jobId w =
     (if \<not> confirmed then (Undefined, w)
      else (case supabase ft (Delete Job_descriptions [Eq ''id'' (JStr jobId)]) w of
              (Thrown e, w1) \<Rightarrow> (Boolean False, delete_failed w1)
            | (Error e, w1) \<Rightarrow> (Undefined, delete_failed w1)
            | (Data rows, w1) \<Rightarrow>
                (Boolean True,
                 invalidateQueries userId fts
                   (toast_call ''Success'' ''Job description deleted successfully''
                      Default_variant w1))))"

definition whitelist :: "string list" where
  "whitelist =
     [''job_title'', ''company_name'', ''location'', ''original_text'', ''job_requirements'',
      ''benefits'']"

definition updateData :: "row \<Rightarrow> row" where
  "updateData jd = fields whitelist jd"

definition update_failed :: "world \<Rightarrow> world" where
  "update_failed w =
     toast_call ''Error'' ''Failed to update job description'' Destructive
       (console_error ''Update error:'' w)"

text \<open>\<open>jd\<close> is the argument \<open>jobDescription\<close> of \<open>handleUpdate\<close>; \<open>ft\<close> is the fate of the
  update, \<open>userId\<close> and \<open>fts\<close> are as for \<open>handleDelete\<close>.\<close>

definition update_request :: "row \<Rightarrow> request" where
  "update_request jd = Update Job_descriptions (updateData jd) [Eq ''id'' (col jd ''id'')]"

definition handleUpdate ::
    "fault \<Rightarrow> string option \<Rightarrow> fault list \<Rightarrow> row \<Rightarrow> world \<Rightarrow> bool \<times> world" where
  "handleUpdate ft userId fts jd w =
     (case supabase ft (update_request jd) w of
        (Thrown e, w1) \<Rightarrow> (False, update_failed w1)
      | (Error e, w1) \<Rightarrow> (False, update_failed w1)
      | (Data rows, w1) \<Rightarrow>
          (True,
           invalidateQueries userId fts
             (toast_call ''Success'' ''Job description updated successfully''
                Default_variant w1)))"

section \<open>useShortlists\<close>

text \<open>
  Modelled from the spec: the state setter \<open>setJobDescription\<close> of
  \<^verbatim>\<open>useJobDescriptionData\<close> (the hook is not among the source files) stores the
  externally held "current job description text".
\<close>

definition setJobDescription :: "string \<Rightarrow> world \<Rightarrow> world" where
  "setJobDescription text w = w\<lparr>jobDescription := text\<rparr>"

text \<open>
  Modelled from the spec: \<open>handleClearMatches\<close> of \<^verbatim>\<open>useMatchingLogic\<close> (not among the
  source files; "Clear UI state" at its call) resets the matching session, which the spec
  describes as destroyed or reset on clear-matches.
\<close>

definition handleClearMatchesCore :: "world \<Rightarrow> world" where
  "handleClearMatchesCore w =
     w\<lparr>matching := \<lparr>isMatching = False, matchingResults = None, selectedJobId = None\<rparr>\<rparr>"

text \<open>The effect that runs when the hook mounts.\<close>

definition useShortlists_mount :: "world \<Rightarrow> world" where
  "useShortlists_mount w = setJobDescription [] w"

definition clear_failed :: "world \<Rightarrow> world" where
  "clear_failed w =
     toast_call ''Error'' ''Failed to clear matches. Please try again.'' Destructive
       (console_error ''Error clearing matches:'' w)"

definition clear_query :: "string option \<Rightarrow> request" where
  "clear_query userId =
     Delete Cv_match
       (case userId of
          None \<Rightarrow> [Not_is_null ''id'']
        | Some u \<Rightarrow> if u \<noteq> [] then [Eq ''user_id'' (JStr u)] else [Not_is_null ''id''])"

definition handleClearMatches :: "string option \<Rightarrow> fault \<Rightarrow> world \<Rightarrow> world" where
  "handleClearMatches userId ft w =
     (case supabase ft (clear_query userId) w of
        (Thrown e, w1) \<Rightarrow> clear_failed w1
      | (Error e, w1) \<Rightarrow> clear_failed w1
      | (Data rows, w1) \<Rightarrow>
          toast_call ''Matches cleared''
            ''All your matches have been cleared from the table and database.''
            Default_variant (handleClearMatchesCore w1))"

section \<open>SearchTab\<close>

text \<open>The template literal \<^verbatim>\<open>`%${searchTerm}%`\<close> and the selected columns.\<close>

definition name_pattern :: "string \<Rightarrow> string" where
  "name_pattern searchTerm = ''%'' @ searchTerm @ ''%''"

definition search_columns :: "string list" where
  "search_columns = [''id'', ''name'', ''experience'', ''location'', ''skills'']"

definition search_query :: "string \<Rightarrow> request" where
  "search_query searchTerm =
     Select Cv_metadata (Columns search_columns) [Ilike ''name'' (name_pattern searchTerm)]
       Unordered (Some 10)"

text \<open>\<open>Inl\<close> is the error \<open>searchCandidates\<close> throws.\<close>

definition searchCandidates :: "string \<Rightarrow> fault \<Rightarrow> world \<Rightarrow> (string + row list) \<times> world" where
  "searchCandidates searchTerm ft w =
     (if searchTerm = [] then (Inl ''Please enter a search query'', w)
      else (case supabase ft (search_query searchTerm) w of
              (Data rows, w1) \<Rightarrow> (Inr rows, w1)
            | (Error e, w1) \<Rightarrow> (Inl e, console_error ''Supabase error:'' w1)
            | (Thrown e, w1) \<Rightarrow> (Inl e, w1)))"

section \<open>saveProfile\<close>

text \<open>
  \<^verbatim>\<open>src/components/employer-profile/utils/profileFormUtils.ts\<close>. The answer of
  \<^verbatim>\<open>supabase.auth.getUser()\<close>, the timestamp \<^verbatim>\<open>new Date().toISOString()\<close> and the fate
  of each of the three calls on \<open>employer_profiles\<close> (the check for an existing profile,
  the write, the final fetch) are parameters.
\<close>

datatype auth_reply = Auth_thrown string | Auth_error string | Auth_user "string option"

definition profile_fields :: "string list" where
  "profile_fields =
     [''company_name'', ''registration_number'', ''country'', ''state'', ''industry'',
      ''sub_industry'', ''sub_sub_industry'', ''contact_person'', ''designation'', ''email'',
      ''phone'']"

definition profileData :: "string \<Rightarrow> row \<Rightarrow> row" where
  "profileData uid vals =
     (''user_id'', JStr uid) # fields profile_fields vals @
     [(''alternate_contact'',
         (let a = col vals ''alternate_contact'' in if truthy a then a else JNull)),
      (''is_verified'', JBool False),
      (''is_approved'', JBool False),
      (''profile_completion'', JNum 100)]"

text \<open>\<^verbatim>\<open>profile?.id\<close>: undefined, here \<open>JNull\<close>, when there is no profile.\<close>

fun optional_id :: "row option \<Rightarrow> json" where
  "optional_id None = JNull"
| "optional_id (Some p) = col p ''id''"

text \<open>
  The data of \<^verbatim>\<open>.maybeSingle()\<close>: the row when exactly one was found, null otherwise
  (\<open>saveProfile\<close> does not read the error of this call). \<^verbatim>\<open>.single()\<close> answers with an
  error (\<open>Inl\<close>) unless exactly one row was found.
\<close>

fun maybeSingle :: "reply \<Rightarrow> row option" where
  "maybeSingle (Data [r]) = Some r"
| "maybeSingle rep = None"

fun single :: "reply \<Rightarrow> string + row" where
  "single (Data [r]) = Inr r"
| "single (Data rs) = Inl ''JSON object requested, multiple (or no) rows returned''"
| "single (Error e) = Inl e"
| "single (Thrown e) = Inl e"

definition by_user :: "string \<Rightarrow> request" where
  "by_user uid = Select Employer_profiles All_columns [Eq ''user_id'' (JStr uid)] Unordered None"

definition update_profile :: "row \<Rightarrow> string \<Rightarrow> json \<Rightarrow> request" where
  "update_profile pd timestamp pid =
     Update Employer_profiles (pd @ [(''updated_at'', JStr timestamp)]) [Eq ''id'' pid]"

definition insert_profile :: "row \<Rightarrow> string \<Rightarrow> request" where
  "insert_profile pd timestamp =
     Insert Employer_profiles
       (pd @ [(''created_at'', JStr timestamp), (''updated_at'', JStr timestamp)])"

text \<open>The else branch: look for a profile of the user, update it if there is one, insert
  otherwise. A rejected check is passed on as the result, for the catch of \<open>saveProfile\<close>.\<close>

definition save_without_id ::
    "row \<Rightarrow> string \<Rightarrow> string \<Rightarrow> fault \<Rightarrow> fault \<Rightarrow> world \<Rightarrow> reply \<times> world" where
  "save_without_id pd uid timestamp f_check f_write w =
     (case supabase f_check (by_user uid) w of
        (Thrown e, w1) \<Rightarrow> (Thrown e, w1)
      | (rep, w1) \<Rightarrow>
          (case maybeSingle rep of
             Some existingProfile \<Rightarrow>
               supabase f_write (update_profile pd timestamp (col existingProfile ''id'')) w1
           | None \<Rightarrow> supabase f_write (insert_profile pd timestamp) w1))"

text \<open>The write: by the id of the profile that was passed in, when it has one.\<close>

definition write_profile ::
    "row \<Rightarrow> row option \<Rightarrow> string \<Rightarrow> string \<Rightarrow> fault \<Rightarrow> fault \<Rightarrow> world \<Rightarrow> reply \<times> world" where
  "write_profile pd profile uid timestamp f_check f_write w =
     (if truthy (optional_id profile)
      then supabase f_write (update_profile pd timestamp (optional_id profile)) w
      else save_without_id pd uid timestamp f_check f_write w)"

definition save_failed :: "string \<Rightarrow> world \<Rightarrow> (string + row) \<times> world" where
  "save_failed e w = (Inl e, console_error ''Error in saveProfile:'' w)"

text \<open>\<open>Inl\<close> is the error of the returned object, \<open>Inr\<close> its data.\<close>

definition saveProfile ::
    "row \<Rightarrow> row option \<Rightarrow> string \<Rightarrow> auth_reply \<Rightarrow> fault \<Rightarrow> fault \<Rightarrow> fault \<Rightarrow> world \<Rightarrow>
     (string + row) \<times> world" where
  "saveProfile vals profile timestamp auth f_check f_write f_fetch w =
     (case auth of
        Auth_thrown e \<Rightarrow> save_failed e w
      | Auth_error e \<Rightarrow> save_failed e w
      | Auth_user None \<Rightarrow> save_failed ''You must be logged in to create a profile'' w
      | Auth_user (Some uid) \<Rightarrow>
          (case write_profile (profileData uid vals) profile uid timestamp f_check f_write w of
             (Thrown e, w1) \<Rightarrow> save_failed e w1
           | (Error e, w1) \<Rightarrow> save_failed e (console_error ''Error saving profile:'' w1)
           | (Data rows, w1) \<Rightarrow>
               (case supabase f_fetch (by_user uid) w1 of
                  (Thrown e, w2) \<Rightarrow> save_failed e w2
                | (rep, w2) \<Rightarrow>
                    (case single rep of
                       Inr updatedProfile \<Rightarrow> (Inr updatedProfile, w2)
                     | Inl e \<Rightarrow>
                         save_failed e
                           (console_error ''Error fetching updated profile:'' w2)))))"

section \<open>Vocabulary of the properties\<close>

text \<open>The rows of a relation that belong to a user.\<close>

definition owned_by :: "string \<Rightarrow> row \<Rightarrow> bool" where
  "owned_by u r = (col r ''user_id'' = JStr u)"

text \<open>Every row has its primary key: \<open>id\<close> is not NULL.\<close>

definition has_ids :: "row list \<Rightarrow> bool" where
  "has_ids rs = list_all (\<lambda>r. col r ''id'' \<noteq> JNull) rs"

text \<open>The two notifications of \<open>handleClearMatches\<close>.\<close>

definition cleared_toast :: toast where
  "cleared_toast =
     \<lparr>title = ''Matches cleared'',
      description = ''All your matches have been cleared from the table and database.'',
      variant = Default_variant\<rparr>"

definition clear_error_toast :: toast where
  "clear_error_toast =
     \<lparr>title = ''Error'', description = ''Failed to clear matches. Please try again.'',
      variant = Destructive\<rparr>"

text \<open>
  What a successful fetch of the job description list is made of: the rows of the user,
  newest first, each as the item the hook hands out. An item agrees with its row on
  every field but the embedded \<open>employer_profiles\<close>.
\<close>

definition listing :: "database \<Rightarrow> string \<Rightarrow> row list" where
  "listing d u = ordered (Descending ''created_at'') (filter (owned_by u) (job_descriptions d))"

definition as_item :: "database \<Rightarrow> row \<Rightarrow> row" where
  "as_item d r = transform (shape d jd_columns r)"

definition same_job :: "row \<Rightarrow> row \<Rightarrow> bool" where
  "same_job item r = (\<forall>c. c \<noteq> ''employer_profiles'' \<longrightarrow> col item c = col r c)"

definition fresh_list :: "database \<Rightarrow> string \<Rightarrow> row list" where
  "fresh_list d u = map (as_item d) (listing d u)"

text \<open>
  A run of the query with \<open>n\<close> retries is answered when one of its attempts is. A
  request that reads and does not write.
\<close>

fun answered :: "nat \<Rightarrow> fault list \<Rightarrow> bool" where
  "answered n [] = True"
| "answered 0 (ft # fts) = (ft = No_fault)"
| "answered (Suc n) (ft # fts) = (ft = No_fault \<or> answered n fts)"

fun is_select :: "request \<Rightarrow> bool" where
  "is_select (Select rel cols fs ord lim) = True"
| "is_select rq = False"

text \<open>The job with the given id is not in the list.\<close>

definition absent :: "string \<Rightarrow> row list \<Rightarrow> bool" where
  "absent jobId items = list_all (\<lambda>item. col item ''id'' \<noteq> JStr jobId) items"

text \<open>
  Following the words of the claim on the update: the six mutable fields, and the fields
  of a job description that an update must leave alone.
\<close>

definition mutable_fields :: "string list" where
  "mutable_fields =
     [''job_title'', ''company_name'', ''location'', ''original_text'', ''job_requirements'',
      ''benefits'']"

definition fixed_fields :: "string list" where
  "fixed_fields = [''id'', ''user_id'', ''employer_profile_id'', ''agent_id'', ''created_at'']"

text \<open>
  The frame of an update with the object \<open>jd\<close>, for a row \<open>r\<close> and the row \<open>r'\<close> that took
  its place: \<open>r'\<close> has the five fixed fields of \<open>r\<close>; the two agree on every field that is
  not one of the six mutable fields, and on every field that \<open>jd\<close> leaves undefined; and
  they are equal when the id of \<open>r\<close> is not the id of \<open>jd\<close>. The effect: a row that carries
  the id of \<open>jd\<close> has, in each of the six mutable fields that \<open>jd\<close> defines, the value of
  \<open>jd\<close>. The payload of the update request: fields among the six, with the values of
  \<open>jd\<close>.
\<close>

definition keeps_fixed :: "row \<Rightarrow> row \<Rightarrow> bool" where
  "keeps_fixed r r' = list_all (\<lambda>c. col r' c = col r c) fixed_fields"

definition untouched :: "row \<Rightarrow> row \<Rightarrow> row \<Rightarrow> bool" where
  "untouched jd r r' =
     ((\<forall>c. c \<notin> set mutable_fields \<or> map_of jd c = None \<longrightarrow> col r' c = col r c) \<and>
      (col r ''id'' \<noteq> col jd ''id'' \<longrightarrow> r' = r))"

definition persisted :: "row \<Rightarrow> row \<Rightarrow> bool" where
  "persisted jd r' =
     (col jd ''id'' \<noteq> JNull \<and> col r' ''id'' = col jd ''id'' \<longrightarrow>
        (\<forall>c v. c \<in> set mutable_fields \<and> map_of jd c = Some v \<longrightarrow> col r' c = v))"

definition mutable_payload :: "row \<Rightarrow> row \<Rightarrow> bool" where
  "mutable_payload jd vals =
     list_all (\<lambda>(c, v). c \<in> set mutable_fields \<and> map_of jd c = Some v) vals"

definition updated_row :: "row \<Rightarrow> row \<Rightarrow> row" where
  "updated_row jd r =
     (if selected [Eq ''id'' (col jd ''id'')] r then assign (updateData jd) r else r)"

text \<open>Newest first: the creation time of \<open>a\<close> is not before that of \<open>b\<close>.\<close>

definition newest_first :: "row \<Rightarrow> row \<Rightarrow> bool" where
  "newest_first a b = (order_key (col b ''created_at'') \<le> order_key (col a ''created_at''))"

text \<open>
  Following the words of the claim on the candidate search: the name contains the search
  term as a substring, letters compared without regard to case.
\<close>

fun starts_with :: "string \<Rightarrow> string \<Rightarrow> bool" where
  "starts_with [] s = True"
| "starts_with (x # xs) [] = False"
| "starts_with (x # xs) (c # s) = (x = c \<and> starts_with xs s)"

fun contains :: "string \<Rightarrow> string \<Rightarrow> bool" where
  "contains xs [] = (xs = [])"
| "contains xs (c # s) = (starts_with xs (c # s) \<or> contains xs s)"

definition contains_ci :: "string \<Rightarrow> string \<Rightarrow> bool" where
  "contains_ci searchTerm name = contains (map to_lower searchTerm) (map to_lower name)"

text \<open>A search term without the characters that a pattern reads specially.\<close>

definition wildcard_free :: "string \<Rightarrow> bool" where
  "wildcard_free searchTerm =
     list_all (\<lambda>c. c \<notin> {CHR ''%'', CHR ''_'', CHR ''*'', CHR 0x5C}) searchTerm"

text \<open>
  Every cached list holds job descriptions of the user it is cached for. The empty cache
  is such a cache, and the hook keeps the cache so.
\<close>

definition cache_owned :: "world \<Rightarrow> bool" where
  "cache_owned w =
     list_all (\<lambda>(k, items). case k of None \<Rightarrow> True | Some u \<Rightarrow> list_all (owned_by u) items)
       (jd_cache w)"

text \<open>A character that a LIKE pattern takes literally.\<close>

definition plain :: "char \<Rightarrow> bool" where
  "plain c = (c \<noteq> CHR ''%'' \<and> c \<noteq> CHR ''_'' \<and> c \<noteq> CHR 0x5C)"

text \<open>
  The two readings of "the name matches the search term": by the pattern that
  \<open>searchCandidates\<close> sends, and as a substring.
\<close>

definition matches_pattern :: "string \<Rightarrow> row \<Rightarrow> bool" where
  "matches_pattern searchTerm r =
     (case col r ''name'' of JStr name \<Rightarrow> ilike (name_pattern searchTerm) name | _ \<Rightarrow> False)"

definition matches_substring :: "string \<Rightarrow> row \<Rightarrow> bool" where
  "matches_substring searchTerm r =
     (case col r ''name'' of JStr name \<Rightarrow> contains_ci searchTerm name | _ \<Rightarrow> False)"

section \<open>Example states\<close>

text \<open>Concrete databases and worlds, on which the theorems below are instantiated.\<close>

definition empty_db :: database where
  "empty_db =
     \<lparr>employer_profiles = [], job_descriptions = [], cv_match = [], cv_metadata = [],
      serial = 0\<rparr>"

definition empty_world :: world where
  "empty_world =
     \<lparr>db = empty_db, requests = [], toasts = [], console_errors = [], jd_cache = [],
      jobDescription = [],
      matching = \<lparr>isMatching = False, matchingResults = None, selectedJobId = None\<rparr>\<rparr>"

definition match_of_u2 :: row where
  "match_of_u2 = [(''id'', JStr ''m1''), (''user_id'', JStr ''u2''), (''cv_id'', JStr ''cv7'')]"

definition match_of_u1 :: row where
  "match_of_u1 = [(''id'', JStr ''m2''), (''user_id'', JStr ''u1''), (''cv_id'', JStr ''cv9'')]"

definition world_with_matches :: world where
  "world_with_matches =
     empty_world\<lparr>db := empty_db\<lparr>cv_match := [match_of_u2, match_of_u1]\<rparr>\<rparr>"

definition jd_a :: row where
  "jd_a =
     [(''id'', JStr ''JD-A''), (''user_id'', JStr ''u1''), (''job_title'', JStr ''Senior Engineer''),
      (''company_name'', JStr ''Acme''), (''employer_profile_id'', JNull), (''agent_id'', JNull),
      (''created_at'', JStr ''2024-01-15T09:00:00Z'')]"

definition jd_b :: row where
  "jd_b =
     [(''id'', JStr ''JD-B''), (''user_id'', JStr ''u1''), (''job_title'', JStr ''Designer''),
      (''company_name'', JStr ''Acme''), (''employer_profile_id'', JNull), (''agent_id'', JNull),
      (''created_at'', JStr ''2024-02-01T09:00:00Z'')]"

definition jd_c :: row where
  "jd_c =
     [(''id'', JStr ''JD-C''), (''user_id'', JStr ''u2''), (''job_title'', JStr ''Analyst''),
      (''company_name'', JStr ''Other''), (''employer_profile_id'', JNull), (''agent_id'', JNull),
      (''created_at'', JStr ''2024-03-01T09:00:00Z'')]"

definition world_with_jobs :: world where
  "world_with_jobs = empty_world\<lparr>db := empty_db\<lparr>job_descriptions := [jd_a, jd_b, jd_c]\<rparr>\<rparr>"

text \<open>The same, with a list in the cache that was fetched before \<open>jd_b\<close> was created.\<close>

definition world_with_cached_list :: world where
  "world_with_cached_list = world_with_jobs\<lparr>jd_cache := [(Some ''u1'', [jd_a])]\<rparr>"

definition jd_a_edited :: row where
  "jd_a_edited =
     [(''id'', JStr ''JD-A''), (''user_id'', JStr ''u9''), (''job_title'', JStr ''Staff Engineer''),
      (''company_name'', JStr ''Acme'')]"

definition candidate_bob :: row where
  "candidate_bob =
     [(''id'', JStr ''cv1''), (''name'', JStr ''Bob''), (''experience'', JNum 4),
      (''location'', JStr ''Leeds''), (''skills'', JNull), (''email'', JStr ''bob@example.org'')]"

definition candidate_alice :: row where
  "candidate_alice =
     [(''id'', JStr ''cv2''), (''name'', JStr ''Alice Roberts''), (''experience'', JNum 9),
      (''location'', JStr ''York''), (''skills'', JNull), (''email'', JStr ''alice@example.org'')]"

definition world_with_candidates :: world where
  "world_with_candidates =
     empty_world\<lparr>db := empty_db\<lparr>cv_metadata := [candidate_bob, candidate_alice]\<rparr>\<rparr>"

definition profile_p1 :: row where
  "profile_p1 =
     [(''id'', JStr ''p1''), (''user_id'', JStr ''u1''), (''company_name'', JStr ''Acme''),
      (''email'', JStr ''hr@acme.example''), (''created_at'', JStr ''2024-01-01T00:00:00Z'')]"

definition profile_p2 :: row where
  "profile_p2 =
     [(''id'', JStr ''p2''), (''user_id'', JStr ''u2''), (''company_name'', JStr ''Other''),
      (''email'', JStr ''jobs@other.example''), (''created_at'', JStr ''2024-01-02T00:00:00Z'')]"

definition world_with_profiles :: world where
  "world_with_profiles =
     empty_world\<lparr>db := empty_db\<lparr>employer_profiles := [profile_p1, profile_p2]\<rparr>\<rparr>"

definition form_values :: row where
  "form_values =
     [(''company_name'', JStr ''Acme Ltd''), (''registration_number'', JStr ''R-1''),
      (''country'', JStr ''UK''), (''state'', JStr ''Yorkshire''), (''industry'', JStr ''IT''),
      (''sub_industry'', JStr ''Software''), (''sub_sub_industry'', JStr ''Tools''),
      (''contact_person'', JStr ''Ann Lee''), (''designation'', JStr ''HR lead''),
      (''email'', JStr ''hr@acme.example''), (''phone'', JStr ''0123456789'')]"

definition save_time :: string where
  "save_time = ''2024-05-01T10:00:00Z''"

section \<open>Facts about the service model\<close>

lemma supabase_No_fault:
  "supabase No_fault rq w =
     (fst (exec rq (db w)), w\<lparr>requests := requests w @ [rq], db := snd (exec rq (db w))\<rparr>)"
  by (simp add: supabase_def Let_def split: prod.split)

lemma supabase_Fails:
  "supabase (Fails e) rq w = (Error e, w\<lparr>requests := requests w @ [rq]\<rparr>)"
  by (simp add: supabase_def)

lemma supabase_Throws:
  "supabase (Throws e) rq w = (Thrown e, w\<lparr>requests := requests w @ [rq]\<rparr>)"
  by (simp add: supabase_def)

lemma selected_single [simp]: "selected [f] r = holds f r"
  by (simp add: selected_def)

lemma delete_twice:
  "snd (exec (Delete rel fs) (snd (exec (Delete rel fs) d))) = snd (exec (Delete rel fs) d)"
  by (cases rel) simp_all

subsection \<open>Clearing matches\<close>

lemma handleClearMatches_No_fault:
  "handleClearMatches userId No_fault w =
     toast_call ''Matches cleared''
       ''All your matches have been cleared from the table and database.'' Default_variant
       (handleClearMatchesCore
          (w\<lparr>requests := requests w @ [clear_query userId],
             db := snd (exec (clear_query userId) (db w))\<rparr>))"
  by (simp add: handleClearMatches_def supabase_No_fault clear_query_def)

lemma handleClearMatches_fault:
  "ft \<noteq> No_fault \<Longrightarrow>
   handleClearMatches userId ft w =
     clear_failed (w\<lparr>requests := requests w @ [clear_query userId]\<rparr>)"
  by (cases ft) (simp_all add: handleClearMatches_def supabase_Fails supabase_Throws)

lemma db_handleClearMatches_No_fault:
  "db (handleClearMatches userId No_fault w) = snd (exec (clear_query userId) (db w))"
  by (simp add: handleClearMatches_No_fault toast_call_def handleClearMatchesCore_def)

lemma clear_query_removes_owned:
  assumes "has_ids (cv_match d)"
  shows "filter (owned_by u) (cv_match (snd (exec (clear_query (Some u)) d))) = []"
  using assms
  by (auto simp: clear_query_def has_ids_def owned_by_def filter_empty_conv list_all_iff)

lemma clear_query_twice:
  "snd (exec (clear_query userId) (snd (exec (clear_query userId) d))) =
   snd (exec (clear_query userId) d)"
  unfolding clear_query_def by (rule delete_twice)

subsection \<open>Rows\<close>

lemma map_of_set_col: "map_of (set_col c v r) = (map_of r)(c \<mapsto> v)"
  by (induction r) (auto simp: fun_eq_iff)

lemma col_set_col: "col (set_col c v r) c' = (if c' = c then v else col r c')"
  by (simp add: col_def map_of_set_col)

lemma col_assign_other: "c \<notin> fst ` set vals \<Longrightarrow> col (assign vals r) c = col r c"
  unfolding assign_def
  by (induction vals arbitrary: r) (auto simp: col_set_col)

lemma col_assign_in:
  "distinct (map fst vals) \<Longrightarrow> map_of vals c = Some v \<Longrightarrow> col (assign vals r) c = v"
  unfolding assign_def
proof (induction vals arbitrary: r)
  case Nil
  then show ?case by simp
next
  case (Cons a vals)
  obtain k x where a: "a = (k, x)" by (cases a)
  show ?case
  proof (cases "k = c")
    case True
    with Cons.prems a have "c \<notin> fst ` set vals" "x = v" by auto
    then show ?thesis
      using col_assign_other [of c vals "set_col k x r"] a True
      by (simp add: assign_def col_set_col)
  next
    case False
    with Cons a show ?thesis by simp
  qed
qed

lemma map_of_fields:
  "map_of (fields cs obj) c = (if c \<in> set cs then map_of obj c else None)"
  unfolding fields_def
  by (induction cs) (auto split: option.splits simp: map_add_def)

lemma keys_fields: "map fst (fields cs obj) = filter (\<lambda>c. map_of obj c \<noteq> None) cs"
  unfolding fields_def
  by (induction cs) (auto split: option.splits)

lemma set_ordered [simp]: "set (ordered ord rs) = set rs"
  by (cases ord) simp_all

subsection \<open>The job description list\<close>

lemma col_transform [simp]: "col (transform item) c = col item c"
  by (simp add: transform_def col_set_col)

lemma selected_user_id: "selected [Eq ''user_id'' (JStr u)] = owned_by u"
  by (rule ext) (simp add: owned_by_def)

lemma same_job_as_item: "same_job (as_item d r) r"
  by (simp add: same_job_def as_item_def jd_columns_def col_set_col)

lemma col_as_item: "c \<noteq> ''employer_profiles'' \<Longrightarrow> col (as_item d r) c = col r c"
  using same_job_as_item [of d r] by (simp add: same_job_def)

lemma mset_listing: "mset (listing d u) = mset (filter (owned_by u) (job_descriptions d))"
  by (simp add: listing_def)

lemma sorted_listing: "sorted_wrt newest_first (listing d u)"
proof -
  have "sorted (map (\<lambda>r. order_key (col r ''created_at''))
           (sort_key (\<lambda>r. order_key (col r ''created_at''))
              (filter (owned_by u) (job_descriptions d))))"
    by (rule sorted_sort_key)
  then show ?thesis
    unfolding listing_def newest_first_def
    by (simp add: sorted_map sorted_wrt_rev)
qed

lemma newest_first_as_item [simp]: "newest_first (as_item d a) (as_item d b) = newest_first a b"
  using same_job_as_item [of d a] same_job_as_item [of d b]
  by (simp add: newest_first_def same_job_def)

lemma owned_by_as_item [simp]: "owned_by u (as_item d r) = owned_by u r"
  using same_job_as_item [of d r] by (simp add: owned_by_def same_job_def)

lemma owned_listing: "r \<in> set (listing d u) \<Longrightarrow> owned_by u r"
  by (simp add: listing_def)

lemma same_job_fresh_list: "list_all2 same_job (fresh_list d u) (listing d u)"
  by (simp add: fresh_list_def list_all2_map1 list_all2_same same_job_as_item)

lemma sorted_fresh_list: "sorted_wrt newest_first (fresh_list d u)"
  using sorted_listing [of d u] by (simp add: fresh_list_def sorted_wrt_map)

lemma owned_fresh_list: "list_all (owned_by u) (fresh_list d u)"
  by (simp add: fresh_list_def list_all_iff owned_listing)

lemma fresh_list_item:
  assumes "item \<in> set (fresh_list d u)"
  shows "\<exists>r \<in> set (job_descriptions d). same_job item r"
proof -
  from assms obtain r where "r \<in> set (job_descriptions d)" "item = as_item d r"
    by (auto simp: fresh_list_def listing_def)
  then show ?thesis using same_job_as_item by blast
qed

text \<open>One attempt.\<close>

lemma queryFn_disabled: "\<not> truthy_id userId \<Longrightarrow> queryFn userId ft w = (Inr [], w)"
  by (cases userId) (simp_all add: queryFn_def)

lemma queryFn_No_fault:
  "u \<noteq> [] \<Longrightarrow>
   queryFn (Some u) No_fault w =
     (Inr (fresh_list (db w) u), w\<lparr>requests := requests w @ [jd_select u]\<rparr>)"
  by (simp add: queryFn_def supabase_No_fault jd_select_def listing_def as_item_def
      fresh_list_def selected_user_id del: shape.simps)

lemma queryFn_fault:
  "u \<noteq> [] \<Longrightarrow> ft \<noteq> No_fault \<Longrightarrow>
   \<exists>e. queryFn (Some u) ft w = (Inl e, w\<lparr>requests := requests w @ [jd_select u]\<rparr>)"
  by (cases ft) (simp_all add: queryFn_def supabase_Fails supabase_Throws)

text \<open>A run of the query: it sends the select of the user once or more, and yields the
  fresh list when one of the attempts is answered.\<close>

lemma answered_fate: "fate fts = No_fault \<Longrightarrow> answered n fts"
  by (cases fts; cases n) simp_all

lemma answered_tl: "fate fts \<noteq> No_fault \<Longrightarrow> answered (Suc n) fts = answered n (tl fts)"
  by (cases fts) simp_all

lemma answered_0: "answered 0 fts = (fate fts = No_fault)"
  by (cases fts) simp_all

lemma requests_twice:
  "w\<lparr>requests := requests w @ [rq]\<rparr>\<lparr>requests := requests w @ rq # rest\<rparr> =
     w\<lparr>requests := requests w @ rq # rest\<rparr>"
  by simp

lemma fetch_answered:
  "u \<noteq> [] \<Longrightarrow> answered n fts \<Longrightarrow>
   \<exists>k. fetch n fts (Some u) w =
     (Inr (fresh_list (db w) u),
      w\<lparr>requests := requests w @ replicate (Suc k) (jd_select u)\<rparr>)"
proof (induction n arbitrary: fts w)
  case 0
  then have "fate fts = No_fault" by (simp add: answered_0)
  with 0 have "fetch 0 fts (Some u) w =
      (Inr (fresh_list (db w) u), w\<lparr>requests := requests w @ replicate (Suc 0) (jd_select u)\<rparr>)"
    by (simp add: queryFn_No_fault)
  then show ?case by blast
next
  case (Suc n)
  show ?case
  proof (cases "fate fts = No_fault")
    case True
    with Suc.prems have "fetch (Suc n) fts (Some u) w =
        (Inr (fresh_list (db w) u),
         w\<lparr>requests := requests w @ replicate (Suc 0) (jd_select u)\<rparr>)"
      by (simp add: queryFn_No_fault)
    then show ?thesis by blast
  next
    case False
    let ?w1 = "w\<lparr>requests := requests w @ [jd_select u]\<rparr>"
    from queryFn_fault [OF Suc.prems(1) False] obtain e where
      q: "queryFn (Some u) (fate fts) w = (Inl e, ?w1)" by blast
    from Suc.prems(2) False have "answered n (tl fts)" by (simp add: answered_tl)
    from Suc.IH [OF Suc.prems(1) this, of ?w1] obtain k where
      "fetch n (tl fts) (Some u) ?w1 =
         (Inr (fresh_list (db ?w1) u),
          ?w1\<lparr>requests := requests ?w1 @ replicate (Suc k) (jd_select u)\<rparr>)" by blast
    with q have "fetch (Suc n) fts (Some u) w =
        (Inr (fresh_list (db w) u),
         w\<lparr>requests := requests w @ replicate (Suc (Suc k)) (jd_select u)\<rparr>)"
      by simp
    then show ?thesis by blast
  qed
qed

lemma fetch_failed:
  "u \<noteq> [] \<Longrightarrow> \<not> answered n fts \<Longrightarrow>
   \<exists>e. fetch n fts (Some u) w =
     (Inl e, w\<lparr>requests := requests w @ replicate (Suc n) (jd_select u)\<rparr>)"
proof (induction n arbitrary: fts w)
  case 0
  then have "fate fts \<noteq> No_fault" by (simp add: answered_0)
  from queryFn_fault [OF 0(1) this] show ?case by simp
next
  case (Suc n)
  from Suc.prems(2) have f: "fate fts \<noteq> No_fault" using answered_fate by blast
  let ?w1 = "w\<lparr>requests := requests w @ [jd_select u]\<rparr>"
  from queryFn_fault [OF Suc.prems(1) f] obtain e where
    q: "queryFn (Some u) (fate fts) w = (Inl e, ?w1)" by blast
  from Suc.prems(2) f have "\<not> answered n (tl fts)" by (simp add: answered_tl)
  from Suc.IH [OF Suc.prems(1) this, of ?w1] obtain e' where
    "fetch n (tl fts) (Some u) ?w1 =
       (Inl e', ?w1\<lparr>requests := requests ?w1 @ replicate (Suc n) (jd_select u)\<rparr>)" by blast
  with q have "fetch (Suc n) fts (Some u) w =
      (Inl e', w\<lparr>requests := requests w @ replicate (Suc (Suc n)) (jd_select u)\<rparr>)"
    by simp
  then show ?case by blast
qed

lemma refetch_answered:
  assumes "u \<noteq> []" "answered retry fts"
  shows "\<exists>k. refetch fts (Some u) w =
     w\<lparr>requests := requests w @ replicate (Suc k) (jd_select u),
       jd_cache := (Some u, fresh_list (db w) u) # jd_cache w\<rparr>"
proof -
  from fetch_answered [OF assms, of w] obtain k where
    "fetch retry fts (Some u) w =
       (Inr (fresh_list (db w) u),
        w\<lparr>requests := requests w @ replicate (Suc k) (jd_select u)\<rparr>)" by blast
  then have "refetch fts (Some u) w =
     w\<lparr>requests := requests w @ replicate (Suc k) (jd_select u),
       jd_cache := (Some u, fresh_list (db w) u) # jd_cache w\<rparr>"
    by (simp add: refetch_def)
  then show ?thesis by blast
qed

lemma refetch_failed:
  assumes "u \<noteq> []" "\<not> answered retry fts"
  shows "refetch fts (Some u) w =
     w\<lparr>requests := requests w @ replicate (Suc retry) (jd_select u)\<rparr>"
proof -
  from fetch_failed [OF assms, of w] obtain e where
    "fetch retry fts (Some u) w =
       (Inl e, w\<lparr>requests := requests w @ replicate (Suc retry) (jd_select u)\<rparr>)" by blast
  then show ?thesis by (simp add: refetch_def)
qed

text \<open>What a run of the query leaves as it was, and what it sends.\<close>

lemma refetch_cases:
  assumes "u \<noteq> []"
  obtains k where "answered retry fts"
      "refetch fts (Some u) w =
         w\<lparr>requests := requests w @ replicate (Suc k) (jd_select u),
           jd_cache := (Some u, fresh_list (db w) u) # jd_cache w\<rparr>"
  | "\<not> answered retry fts"
      "refetch fts (Some u) w =
         w\<lparr>requests := requests w @ replicate (Suc retry) (jd_select u)\<rparr>"
  using refetch_answered [OF assms, of fts w] refetch_failed [OF assms, of fts w] by blast

lemma db_refetch [simp]: "u \<noteq> [] \<Longrightarrow> db (refetch fts (Some u) w) = db w"
  by (erule refetch_cases [of u fts w]) simp_all

lemma toasts_refetch [simp]: "u \<noteq> [] \<Longrightarrow> toasts (refetch fts (Some u) w) = toasts w"
  by (erule refetch_cases [of u fts w]) simp_all

lemma console_errors_refetch [simp]:
  "u \<noteq> [] \<Longrightarrow> console_errors (refetch fts (Some u) w) = console_errors w"
  by (erule refetch_cases [of u fts w]) simp_all

lemma requests_refetch:
  assumes "u \<noteq> []"
  shows "\<exists>k. requests (refetch fts (Some u) w) = requests w @ replicate (Suc k) (jd_select u)"
  by (rule refetch_cases [OF assms, of fts w]) auto

lemma cached_refetch_answered:
  assumes "u \<noteq> []" "answered retry fts"
  shows "cached (Some u) (refetch fts (Some u) w) = fresh_list (db w) u"
proof -
  from refetch_answered [OF assms, of w] obtain k where
    "refetch fts (Some u) w =
       w\<lparr>requests := requests w @ replicate (Suc k) (jd_select u),
         jd_cache := (Some u, fresh_list (db w) u) # jd_cache w\<rparr>" by blast
  then show ?thesis by (simp add: cached_def)
qed

lemma cached_refetch_failed:
  assumes "u \<noteq> []" "\<not> answered retry fts"
  shows "cached userId (refetch fts (Some u) w) = cached userId w"
  by (simp add: refetch_failed [OF assms] cached_def)

lemma cached_owned:
  assumes "cache_owned w"
  shows "list_all (owned_by u) (cached (Some u) w)"
proof (cases "map_of (jd_cache w) (Some u)")
  case None
  then show ?thesis by (simp add: cached_def)
next
  case (Some items)
  then have "(Some u, items) \<in> set (jd_cache w)" by (rule map_of_SomeD)
  with assms have "list_all (owned_by u) items"
    unfolding cache_owned_def list_all_iff by fastforce
  with Some show ?thesis by (simp add: cached_def)
qed

lemma cache_owned_refetch:
  assumes "u \<noteq> []" "cache_owned w"
  shows "cache_owned (refetch fts (Some u) w)"
proof (rule refetch_cases [OF assms(1), of fts w])
  fix k
  assume "refetch fts (Some u) w =
         w\<lparr>requests := requests w @ replicate (Suc k) (jd_select u),
           jd_cache := (Some u, fresh_list (db w) u) # jd_cache w\<rparr>"
  with assms(2) show ?thesis by (simp add: cache_owned_def owned_fresh_list)
next
  assume "refetch fts (Some u) w =
         w\<lparr>requests := requests w @ replicate (Suc retry) (jd_select u)\<rparr>"
  with assms(2) show ?thesis by (simp add: cache_owned_def)
qed

text \<open>The list of the hook.\<close>

lemma jobDescriptions_disabled:
  "\<not> truthy_id userId \<Longrightarrow> jobDescriptions userId fts w = ([], w)"
  by (simp add: jobDescriptions_def)

lemma jobDescriptions_enabled:
  "u \<noteq> [] \<Longrightarrow>
   jobDescriptions (Some u) fts w =
     (cached (Some u) (refetch fts (Some u) w), refetch fts (Some u) w)"
  by (simp add: jobDescriptions_def Let_def)

lemma jobDescriptions_answered:
  "u \<noteq> [] \<Longrightarrow> answered retry fts \<Longrightarrow>
   fst (jobDescriptions (Some u) fts w) = fresh_list (db w) u"
  by (simp add: jobDescriptions_enabled cached_refetch_answered)

lemma jobDescriptions_failed:
  "u \<noteq> [] \<Longrightarrow> \<not> answered retry fts \<Longrightarrow>
   fst (jobDescriptions (Some u) fts w) = cached (Some u) w"
  by (simp add: jobDescriptions_enabled cached_refetch_failed)

lemma jobDescriptions_owned:
  assumes "u \<noteq> []" "cache_owned w"
  shows "list_all (owned_by u) (fst (jobDescriptions (Some u) fts w))"
    and "cache_owned (snd (jobDescriptions (Some u) fts w))"
  using assms cached_owned [OF cache_owned_refetch [OF assms], of u fts]
  by (simp_all add: jobDescriptions_enabled cache_owned_refetch)

lemma db_jobDescriptions: "db (snd (jobDescriptions userId fts w)) = db w"
  by (cases "truthy_id userId"; cases userId) (simp_all add: jobDescriptions_def Let_def)

text \<open>The invalidation in the handlers.\<close>

lemma invalidateQueries_disabled:
  "\<not> truthy_id userId \<Longrightarrow> invalidateQueries userId fts w = w"
  by (simp add: invalidateQueries_def)

lemma invalidateQueries_enabled:
  "u \<noteq> [] \<Longrightarrow> invalidateQueries (Some u) fts w = refetch fts (Some u) w"
  by (simp add: invalidateQueries_def)

lemma db_invalidateQueries [simp]: "db (invalidateQueries userId fts w) = db w"
  by (cases "truthy_id userId"; cases userId) (simp_all add: invalidateQueries_def)

lemma toasts_invalidateQueries [simp]:
  "toasts (invalidateQueries userId fts w) = toasts w"
  by (cases "truthy_id userId"; cases userId) (simp_all add: invalidateQueries_def)

lemma console_errors_invalidateQueries [simp]:
  "console_errors (invalidateQueries userId fts w) = console_errors w"
  by (cases "truthy_id userId"; cases userId) (simp_all add: invalidateQueries_def)

lemma requests_invalidateQueries:
  "\<exists>rest. requests (invalidateQueries userId fts w) = requests w @ rest \<and>
     list_all is_select rest \<and> (rest = [] \<longleftrightarrow> \<not> truthy_id userId)"
proof (cases "truthy_id userId")
  case False
  then show ?thesis by (simp add: invalidateQueries_def)
next
  case True
  then obtain u where u: "userId = Some u" "u \<noteq> []" by (cases userId) simp_all
  from requests_refetch [OF u(2), of fts w] obtain k where
    "requests (refetch fts (Some u) w) = requests w @ replicate (Suc k) (jd_select u)" by blast
  with u True have "requests (invalidateQueries userId fts w) =
      requests w @ replicate (Suc k) (jd_select u) \<and>
      list_all is_select (replicate (Suc k) (jd_select u)) \<and>
      (replicate (Suc k) (jd_select u) = [] \<longleftrightarrow> \<not> truthy_id userId)"
    by (simp add: invalidateQueries_def jd_select_def list_all_iff)
  then show ?thesis by blast
qed

lemma cache_owned_invalidateQueries:
  "cache_owned w \<Longrightarrow> cache_owned (invalidateQueries userId fts w)"
  by (cases "truthy_id userId"; cases userId)
     (simp_all add: invalidateQueries_def cache_owned_refetch)

subsection \<open>Deleting a job description\<close>

lemma handleDelete_unconfirmed: "handleDelete False ft userId fts jobId w = (Undefined, w)"
  by (simp add: handleDelete_def)

lemma handleDelete_No_fault:
  "handleDelete True No_fault userId fts jobId w =
     (Boolean True,
      invalidateQueries userId fts
        (toast_call ''Success'' ''Job description deleted successfully'' Default_variant
           (w\<lparr>requests := requests w @ [Delete Job_descriptions [Eq ''id'' (JStr jobId)]],
              db := snd (exec (Delete Job_descriptions [Eq ''id'' (JStr jobId)]) (db w))\<rparr>)))"
  by (simp add: handleDelete_def supabase_No_fault)

lemma handleDelete_Fails:
  "handleDelete True (Fails e) userId fts jobId w =
     (Undefined,
      delete_failed
        (w\<lparr>requests := requests w @ [Delete Job_descriptions [Eq ''id'' (JStr jobId)]]\<rparr>))"
  by (simp add: handleDelete_def supabase_Fails)

lemma handleDelete_Throws:
  "handleDelete True (Throws e) userId fts jobId w =
     (Boolean False,
      delete_failed
        (w\<lparr>requests := requests w @ [Delete Job_descriptions [Eq ''id'' (JStr jobId)]]\<rparr>))"
  by (simp add: handleDelete_def supabase_Throws)

lemma db_delete_failed [simp]: "db (delete_failed w) = db w"
  by (simp add: delete_failed_def toast_call_def console_error_def)

lemma db_handleDelete:
  "db (snd (handleDelete True ft userId fts jobId w)) =
     (if ft = No_fault then snd (exec (Delete Job_descriptions [Eq ''id'' (JStr jobId)]) (db w))
      else db w)"
  by (cases ft)
     (simp_all add: handleDelete_No_fault handleDelete_Fails handleDelete_Throws toast_call_def)

lemma requests_handleDelete:
  "\<exists>rest.
     requests (snd (handleDelete True ft userId fts jobId w)) =
       requests w @ Delete Job_descriptions [Eq ''id'' (JStr jobId)] # rest \<and>
     list_all is_select rest \<and> (rest \<noteq> [] \<longleftrightarrow> ft = No_fault \<and> truthy_id userId)"
proof (cases "ft = No_fault")
  case False
  then have "requests (snd (handleDelete True ft userId fts jobId w)) =
      requests w @ Delete Job_descriptions [Eq ''id'' (JStr jobId)] # []"
    by (cases ft)
       (simp_all add: handleDelete_Fails handleDelete_Throws delete_failed_def toast_call_def
          console_error_def)
  with False show ?thesis by simp
next
  case True
  let ?w1 = "toast_call ''Success'' ''Job description deleted successfully'' Default_variant
           (w\<lparr>requests := requests w @ [Delete Job_descriptions [Eq ''id'' (JStr jobId)]],
              db := snd (exec (Delete Job_descriptions [Eq ''id'' (JStr jobId)]) (db w))\<rparr>)"
  from requests_invalidateQueries [of userId fts ?w1] obtain rest where
    r: "requests (invalidateQueries userId fts ?w1) = requests ?w1 @ rest"
      "list_all is_select rest" "rest = [] \<longleftrightarrow> \<not> truthy_id userId" by blast
  from r(1) True have "requests (snd (handleDelete True ft userId fts jobId w)) =
      requests w @ Delete Job_descriptions [Eq ''id'' (JStr jobId)] # rest"
    by (simp add: handleDelete_No_fault toast_call_def)
  with r(2,3) True show ?thesis by blast
qed

lemma rows_handleDelete:
  "job_descriptions (db (snd (handleDelete True No_fault userId fts jobId w))) =
     filter (\<lambda>r. col r ''id'' \<noteq> JStr jobId) (job_descriptions (db w))"
  by (simp add: db_handleDelete)

lemma others_handleDelete:
  "employer_profiles (db (snd (handleDelete True No_fault userId fts jobId w))) =
     employer_profiles (db w)"
  "cv_match (db (snd (handleDelete True No_fault userId fts jobId w))) = cv_match (db w)"
  "cv_metadata (db (snd (handleDelete True No_fault userId fts jobId w))) = cv_metadata (db w)"
  by (simp_all add: db_handleDelete)

lemma absent_fresh_list:
  assumes "job_descriptions d = filter (\<lambda>r. col r ''id'' \<noteq> JStr jobId) rs"
  shows "absent jobId (fresh_list d u)"
  unfolding absent_def list_all_iff
proof
  fix item assume "item \<in> set (fresh_list d u)"
  from fresh_list_item [OF this] obtain r where
    r: "r \<in> set (job_descriptions d)" "same_job item r" by blast
  from r(2) have "col item ''id'' = col r ''id''" by (simp add: same_job_def)
  with r(1) assms show "col item ''id'' \<noteq> JStr jobId" by simp
qed

lemma absent_after_handleDelete:
  assumes "u \<noteq> []" "answered retry fts'"
  shows "absent jobId
           (fst (jobDescriptions (Some u) fts'
                   (snd (handleDelete True No_fault userId fts jobId w))))"
  unfolding jobDescriptions_answered [OF assms]
  by (rule absent_fresh_list) (rule rows_handleDelete)

lemma cached_handleDelete:
  assumes "u \<noteq> []" "answered retry fts"
  shows "cached (Some u) (snd (handleDelete True No_fault (Some u) fts jobId w)) =
           fresh_list (db (snd (handleDelete True No_fault (Some u) fts jobId w))) u"
  using assms
  by (simp add: db_handleDelete)
     (simp add: handleDelete_No_fault invalidateQueries_enabled cached_refetch_answered
        toast_call_def)

lemma absent_cached_handleDelete:
  assumes "u \<noteq> []" "answered retry fts"
  shows "absent jobId (cached (Some u) (snd (handleDelete True No_fault (Some u) fts jobId w)))"
  unfolding cached_handleDelete [OF assms]
  by (rule absent_fresh_list) (rule rows_handleDelete)

lemma cache_owned_toast_call [simp]: "cache_owned (toast_call t d v w) = cache_owned w"
  by (simp add: cache_owned_def toast_call_def)

lemma cache_owned_console_error [simp]: "cache_owned (console_error l w) = cache_owned w"
  by (simp add: cache_owned_def console_error_def)

lemma cache_owned_handleDelete:
  assumes "cache_owned w"
  shows "cache_owned (snd (handleDelete confirmed ft userId fts jobId w))"
proof (cases confirmed)
  case False
  with assms show ?thesis by (simp add: handleDelete_def)
next
  case True
  have "cache_owned (w\<lparr>requests := rs, db := d\<rparr>)" for rs d
    using assms by (simp add: cache_owned_def)
  moreover have "cache_owned (w\<lparr>requests := rs\<rparr>)" for rs
    using assms by (simp add: cache_owned_def)
  ultimately show ?thesis using True
    by (cases ft)
       (simp_all add: handleDelete_No_fault handleDelete_Fails handleDelete_Throws
          cache_owned_invalidateQueries delete_failed_def)
qed

subsection \<open>Updating a job description\<close>

lemma handleUpdate_No_fault:
  "handleUpdate No_fault userId fts jd w =
     (True,
      invalidateQueries userId fts
        (toast_call ''Success'' ''Job description updated successfully'' Default_variant
           (w\<lparr>requests := requests w @ [update_request jd],
              db := snd (exec (update_request jd) (db w))\<rparr>)))"
  by (simp add: handleUpdate_def supabase_No_fault update_request_def Let_def)

lemma handleUpdate_fault:
  "ft \<noteq> No_fault \<Longrightarrow>
   handleUpdate ft userId fts jd w =
     (False, update_failed (w\<lparr>requests := requests w @ [update_request jd]\<rparr>))"
  by (cases ft) (simp_all add: handleUpdate_def supabase_Fails supabase_Throws)

lemma db_handleUpdate:
  "db (snd (handleUpdate ft userId fts jd w)) =
     (if ft = No_fault then snd (exec (update_request jd) (db w)) else db w)"
  by (cases "ft = No_fault")
     (simp_all add: handleUpdate_No_fault handleUpdate_fault toast_call_def
        update_failed_def console_error_def)

lemma cache_handleUpdate_fault:
  "ft \<noteq> No_fault \<Longrightarrow> jd_cache (snd (handleUpdate ft userId fts jd w)) = jd_cache w"
  by (simp add: handleUpdate_fault update_failed_def toast_call_def console_error_def)

lemma requests_handleUpdate:
  "\<exists>rest.
     requests (snd (handleUpdate ft userId fts jd w)) = requests w @ update_request jd # rest \<and>
     list_all is_select rest \<and> (rest \<noteq> [] \<longleftrightarrow> ft = No_fault \<and> truthy_id userId)"
proof (cases "ft = No_fault")
  case False
  then have "requests (snd (handleUpdate ft userId fts jd w)) =
      requests w @ update_request jd # []"
    by (simp add: handleUpdate_fault update_failed_def toast_call_def console_error_def)
  with False show ?thesis by simp
next
  case True
  let ?w1 = "toast_call ''Success'' ''Job description updated successfully'' Default_variant
           (w\<lparr>requests := requests w @ [update_request jd],
              db := snd (exec (update_request jd) (db w))\<rparr>)"
  from requests_invalidateQueries [of userId fts ?w1] obtain rest where
    r: "requests (invalidateQueries userId fts ?w1) = requests ?w1 @ rest"
      "list_all is_select rest" "rest = [] \<longleftrightarrow> \<not> truthy_id userId" by blast
  from r(1) True have "requests (snd (handleUpdate ft userId fts jd w)) =
      requests w @ update_request jd # rest"
    by (simp add: handleUpdate_No_fault toast_call_def)
  with r(2,3) True show ?thesis by blast
qed

lemma whitelist_mutable_fields: "whitelist = mutable_fields"
  by (simp add: whitelist_def mutable_fields_def)

lemma keys_updateData:
  "fst ` set (updateData jd) = {c \<in> set mutable_fields. map_of jd c \<noteq> None}"
proof -
  have "set (map fst (updateData jd)) = {c \<in> set mutable_fields. map_of jd c \<noteq> None}"
    unfolding updateData_def keys_fields whitelist_mutable_fields by (simp only: set_filter)
  then show ?thesis by simp
qed

lemma map_of_updateData:
  "map_of (updateData jd) c = (if c \<in> set mutable_fields then map_of jd c else None)"
  unfolding updateData_def map_of_fields whitelist_mutable_fields ..

lemma distinct_updateData: "distinct (map fst (updateData jd))"
  unfolding updateData_def keys_fields by (rule distinct_filter) (simp add: whitelist_def)

lemma mutable_payload_updateData: "mutable_payload jd (updateData jd)"
  unfolding mutable_payload_def list_all_iff
proof (rule ballI, clarify)
  fix c v assume "(c, v) \<in> set (updateData jd)"
  with distinct_updateData have "map_of (updateData jd) c = Some v" by (rule map_of_is_SomeI)
  then show "c \<in> set mutable_fields \<and> map_of jd c = Some v"
    unfolding map_of_updateData by (cases "c \<in> set mutable_fields") simp_all
qed

lemma exec_update_request:
  "snd (exec (update_request jd) d) =
     d\<lparr>job_descriptions := map (updated_row jd) (job_descriptions d)\<rparr>"
  by (simp add: update_request_def Let_def updated_row_def)

lemma col_updated_row:
  "c \<notin> set mutable_fields \<or> map_of jd c = None \<Longrightarrow> col (updated_row jd r) c = col r c"
proof -
  assume "c \<notin> set mutable_fields \<or> map_of jd c = None"
  then have "c \<notin> fst ` set (updateData jd)" unfolding keys_updateData by auto
  then have "col (assign (updateData jd) r) c = col r c" by (rule col_assign_other)
  then show ?thesis by (simp add: updated_row_def)
qed

lemma untouched_updated_row: "untouched jd r (updated_row jd r)"
  unfolding untouched_def
proof (intro conjI allI impI)
  fix c assume "c \<notin> set mutable_fields \<or> map_of jd c = None"
  then show "col (updated_row jd r) c = col r c" by (rule col_updated_row)
next
  assume "col r ''id'' \<noteq> col jd ''id''"
  then show "updated_row jd r = r" by (simp add: updated_row_def)
qed

lemma untouched_refl: "untouched jd r r"
  by (simp add: untouched_def)

lemma fixed_not_mutable: "c \<in> set fixed_fields \<Longrightarrow> c \<notin> set mutable_fields"
  by (auto simp: fixed_fields_def mutable_fields_def)

lemma keeps_fixed_updated_row: "keeps_fixed r (updated_row jd r)"
  unfolding keeps_fixed_def list_all_iff
  by (rule ballI) (simp add: col_updated_row fixed_not_mutable)

lemma keeps_fixed_refl: "keeps_fixed r r"
  by (simp add: keeps_fixed_def list_all_iff)

lemma persisted_updated_row: "persisted jd (updated_row jd r)"
proof -
  have "col (updated_row jd r) c = v"
    if "col jd ''id'' \<noteq> JNull" "col (updated_row jd r) ''id'' = col jd ''id''"
      "c \<in> set mutable_fields" "map_of jd c = Some v" for c v
  proof -
    have "''id'' \<notin> set mutable_fields" by (simp add: mutable_fields_def)
    then have "col (updated_row jd r) ''id'' = col r ''id''" by (intro col_updated_row disjI1)
    with that have sel: "selected [Eq ''id'' (col jd ''id'')] r" by simp
    have "map_of (updateData jd) c = Some v"
      using that(3,4) by (simp add: map_of_updateData)
    from col_assign_in [OF distinct_updateData this] sel show ?thesis
      by (simp add: updated_row_def)
  qed
  then show ?thesis unfolding persisted_def by blast
qed

lemma cached_handleUpdate:
  assumes "u \<noteq> []" "answered retry fts"
  shows "cached (Some u) (snd (handleUpdate No_fault (Some u) fts jd w)) =
           fresh_list (db (snd (handleUpdate No_fault (Some u) fts jd w))) u"
  using assms
  by (simp add: db_handleUpdate)
     (simp add: handleUpdate_No_fault invalidateQueries_enabled cached_refetch_answered
        toast_call_def)

lemma cache_owned_handleUpdate:
  assumes "cache_owned w"
  shows "cache_owned (snd (handleUpdate ft userId fts jd w))"
proof -
  have "cache_owned (w\<lparr>requests := rs, db := d\<rparr>)" for rs d
    using assms by (simp add: cache_owned_def)
  moreover have "cache_owned (w\<lparr>requests := rs\<rparr>)" for rs
    using assms by (simp add: cache_owned_def)
  ultimately show ?thesis
    by (cases "ft = No_fault")
       (simp_all add: handleUpdate_No_fault handleUpdate_fault
          cache_owned_invalidateQueries update_failed_def)
qed

subsection \<open>Patterns and the candidate search\<close>

lemma like_match_percent: "like_match ''%'' s"
  by (induction s) simp_all

lemma like_match_plain_prefix:
  "list_all plain p \<Longrightarrow> like_match (p @ ''%'') s = starts_with p s"
proof (induction p arbitrary: s)
  case Nil
  then show ?case by (simp add: like_match_percent del: like_match.simps)
next
  case (Cons x xs)
  then show ?case
    by (cases s) (auto simp: plain_def)
qed

lemma like_match_infix:
  "list_all plain p \<Longrightarrow> like_match (CHR ''%'' # p @ ''%'') s = contains p s"
proof (induction s)
  case Nil
  then show ?case
    using like_match_plain_prefix [of p "[]"] by (cases p) simp_all
next
  case (Cons c t)
  then show ?case
    using like_match_plain_prefix [of p "c # t"] by simp
qed

lemma to_lower_percent: "to_lower c = CHR ''%'' \<longleftrightarrow> c = CHR ''%''"
  by (simp add: to_lower_def)

lemma to_lower_underscore: "to_lower c = CHR ''_'' \<longleftrightarrow> c = CHR ''_''"
  by (simp add: to_lower_def)

lemma to_lower_backslash: "to_lower c = CHR 0x5C \<longleftrightarrow> c = CHR 0x5C"
  by (simp add: to_lower_def)

lemma plain_to_lower: "plain (to_lower c) = plain c"
  by (simp add: plain_def to_lower_percent to_lower_underscore to_lower_backslash)

lemma star_to_percent_id: "c \<noteq> CHR ''*'' \<Longrightarrow> star_to_percent c = c"
  by (simp add: star_to_percent_def)

lemma to_lower_percent_same: "to_lower (CHR ''%'') = CHR ''%''"
  by (simp add: to_lower_percent)

lemma ilike_wildcard_free:
  assumes "wildcard_free searchTerm"
  shows "ilike (name_pattern searchTerm) name = contains_ci searchTerm name"
proof -
  from assms have star: "map (to_lower \<circ> star_to_percent) searchTerm = map to_lower searchTerm"
    by (simp add: wildcard_free_def list_all_iff star_to_percent_id)
  from assms have "list_all plain searchTerm"
    by (simp add: wildcard_free_def list_all_iff plain_def)
  then have pl: "list_all plain (map to_lower searchTerm)"
    by (simp add: list_all_iff plain_to_lower)
  have "ilike (name_pattern searchTerm) name =
      like_match (CHR ''%'' # map to_lower searchTerm @ ''%'') (map to_lower name)"
    by (simp add: ilike_def name_pattern_def star star_to_percent_id to_lower_percent_same
        del: like_match.simps)
  also have "\<dots> = contains (map to_lower searchTerm) (map to_lower name)"
    using pl by (rule like_match_infix)
  finally show ?thesis by (simp add: contains_ci_def)
qed

lemma col_project: "c \<in> set cs \<Longrightarrow> col (project cs r) c = col r c"
  unfolding project_def col_def
  by (induction cs) auto

lemma selected_ilike: "selected [Ilike ''name'' (name_pattern searchTerm)] = matches_pattern searchTerm"
  by (rule ext) (simp add: matches_pattern_def del: like_match.simps)

lemma matches_pattern_project [simp]:
  "matches_pattern searchTerm (project search_columns r) = matches_pattern searchTerm r"
  by (simp add: matches_pattern_def col_project search_columns_def)

lemma searchCandidates_No_fault:
  "searchTerm \<noteq> [] \<Longrightarrow>
   searchCandidates searchTerm No_fault w =
     (Inr (map (project search_columns)
        (take 10 (filter (matches_pattern searchTerm) (cv_metadata (db w))))),
      w\<lparr>requests := requests w @ [search_query searchTerm]\<rparr>)"
  by (simp add: searchCandidates_def supabase_No_fault search_query_def selected_ilike
      search_columns_def del: like_match.simps)

lemma searchCandidates_fault:
  "searchTerm \<noteq> [] \<Longrightarrow> ft \<noteq> No_fault \<Longrightarrow>
   \<exists>e w'. searchCandidates searchTerm ft w = (Inl e, w') \<and>
      requests w' = requests w @ [search_query searchTerm] \<and> db w' = db w"
  by (cases ft)
     (simp_all add: searchCandidates_def supabase_Fails supabase_Throws console_error_def)

lemma matches_substring_if_wildcard_free:
  "wildcard_free searchTerm \<Longrightarrow> matches_pattern searchTerm r = matches_substring searchTerm r"
  by (simp add: matches_pattern_def matches_substring_def ilike_wildcard_free
      split: json.splits)

subsection \<open>Saving a profile\<close>

lemma shape_All_columns: "shape d All_columns = (\<lambda>r. r)"
  by (rule ext) simp

lemma exec_by_user:
  "exec (by_user uid) d = (Data (filter (owned_by uid) (employer_profiles d)), d)"
  by (simp add: by_user_def selected_user_id shape_All_columns)

lemma user_id_first:
  "\<exists>others. profileData uid vals = (''user_id'', JStr uid) # others \<and>
     ''user_id'' \<notin> fst ` set others"
proof -
  have a: "''user_id'' \<notin> set profile_fields" by (simp add: profile_fields_def)
  have "set (map fst (fields profile_fields vals)) \<subseteq> set profile_fields"
    unfolding keys_fields by (rule filter_is_subset)
  with a have "''user_id'' \<notin> set (map fst (fields profile_fields vals))" by blast
  then show ?thesis by (simp add: profileData_def)
qed

lemma owned_by_profileData: "owned_by uid (profileData uid vals @ extra)"
  using user_id_first [of uid vals] by (auto simp: owned_by_def col_def)

text \<open>An update with the profile data gives the row to the user.\<close>

lemma owned_by_assign_profileData:
  assumes "''user_id'' \<notin> fst ` set extra"
  shows "owned_by uid (assign (profileData uid vals @ extra) r)"
proof -
  from user_id_first obtain others where
    o: "profileData uid vals = (''user_id'', JStr uid) # others" "''user_id'' \<notin> fst ` set others"
    by blast
  have "assign (profileData uid vals @ extra) r =
      assign (others @ extra) (set_col ''user_id'' (JStr uid) r)"
    by (simp add: o(1) assign_def)
  moreover have "''user_id'' \<notin> fst ` set (others @ extra)" using o(2) assms by auto
  ultimately show ?thesis
    by (simp add: owned_by_def col_assign_other col_set_col)
qed

text \<open>An insert for a user who has a row is refused under the unique constraint.\<close>

lemma insert_existing_refused:
  assumes "r \<in> set (employer_profiles d)" "owned_by uid r"
  shows "exec (insert_profile (profileData uid vals) timestamp) d =
           (Error ''duplicate key value violates unique constraint'', d)"
proof -
  let ?new = "with_default_id (serial d)
      (profileData uid vals @ [(''created_at'', JStr timestamp), (''updated_at'', JStr timestamp)])"
  have "col ?new ''user_id'' = JStr uid"
    using owned_by_profileData [of uid vals]
    by (simp add: with_default_id_def owned_by_def col_set_col)
  moreover have "JStr uid \<in> (\<lambda>r. col r ''user_id'') ` set (employer_profiles d)"
  proof (rule image_eqI)
    show "JStr uid = col r ''user_id''" using assms(2) by (simp add: owned_by_def)
    show "r \<in> set (employer_profiles d)" by (rule assms(1))
  qed
  ultimately have "\<not> unique_user_id (employer_profiles d @ [?new])"
    by (simp add: unique_user_id_def)
  then show ?thesis by (simp add: insert_profile_def Let_def)
qed

text \<open>The check answered with an error, for a user who has a row.\<close>

lemma saveProfile_check_failed:
  assumes "r \<in> set (employer_profiles (db w))" "owned_by uid r"
  shows "saveProfile vals None timestamp (Auth_user (Some uid)) (Fails e) No_fault f_fetch w =
           (Inl ''duplicate key value violates unique constraint'',
            w\<lparr>requests :=
                 requests w @ [by_user uid, insert_profile (profileData uid vals) timestamp],
               console_errors :=
                 console_errors w @ [''Error saving profile:'', ''Error in saveProfile:'']\<rparr>)"
proof -
  let ?w1 = "w\<lparr>requests := requests w @ [by_user uid]\<rparr>"
  from assms have "exec (insert_profile (profileData uid vals) timestamp) (db ?w1) =
      (Error ''duplicate key value violates unique constraint'', db ?w1)"
    by (simp add: insert_existing_refused)
  then have "write_profile (profileData uid vals) None uid timestamp (Fails e) No_fault w =
      (Error ''duplicate key value violates unique constraint'',
       w\<lparr>requests :=
            requests w @ [by_user uid, insert_profile (profileData uid vals) timestamp]\<rparr>)"
    by (simp add: write_profile_def save_without_id_def supabase_Fails
        supabase_No_fault [of _ ?w1])
  then show ?thesis
    by (simp add: saveProfile_def save_failed_def console_error_def)
qed

section \<open>The job description list without a user\<close>

text \<open>
  C2. When \<open>userId\<close> is null, the list of job descriptions is the empty sequence and the
  world is left exactly as it was, whatever the service would answer and whatever the
  cache holds: in particular the log of requests is unchanged, so no query is issued
  against the backing store. The query is disabled, and its function returns before the
  fetch as well.
\<close>

theorem list_null_user:
  "jobDescriptions None fts w = ([], w) \<and> queryFn None ft w = (Inr [], w)"
  by (simp add: jobDescriptions_def queryFn_def)

theorem list_null_user_witness:
  "jobDescriptions None [] empty_world = ([], empty_world) \<and>
   requests (snd (jobDescriptions None [] empty_world)) = []"
  using list_null_user [of "[]" empty_world] by (simp add: empty_world_def)

section \<open>Mounting the shortlist hook\<close>

text \<open>
  C8. Whenever the shortlist hook is initialised, the held job description text is the
  empty string afterwards, whatever it was before.
\<close>

theorem mount_resets_jobDescription: "jobDescription (useShortlists_mount w) = []"
  by (simp add: useShortlists_mount_def setJobDescription_def)

theorem mount_resets_jobDescription_witness:
  "jobDescription (useShortlists_mount (empty_world\<lparr>jobDescription := ''Senior Engineer''\<rparr>)) = []"
  using mount_resets_jobDescription [of "empty_world\<lparr>jobDescription := ''Senior Engineer''\<rparr>"]
  by simp

section \<open>Clearing matches without a user\<close>

text \<open>
  The claim C1 asks that \<open>handleClearMatches\<close> with a null \<open>userId\<close> deletes nothing and
  surfaces an error. On a relation that holds one match of user \<open>u2\<close> and one of user
  \<open>u1\<close>, the operation deletes both and reports success.
\<close>

theorem clear_null_user_deletes_all:
  "cv_match (db world_with_matches) = [match_of_u2, match_of_u1] \<and>
   cv_match (db (handleClearMatches None No_fault world_with_matches)) = [] \<and>
   toasts (handleClearMatches None No_fault world_with_matches) = [cleared_toast] \<and>
   console_errors (handleClearMatches None No_fault world_with_matches) = []"
  by (simp add: handleClearMatches_No_fault clear_query_def world_with_matches_def
      empty_world_def empty_db_def match_of_u2_def match_of_u1_def col_def toast_call_def
      handleClearMatchesCore_def cleared_toast_def)

text \<open>
  C1, as amended. With a null \<open>userId\<close> the operation is not refused: it issues exactly
  one request, a delete on \<open>cv_match\<close> filtered by "id is not null". When the service
  accepts the request, the rows that remain are those without an id, whoever owns them,
  nothing is logged as an error and the notification "Matches cleared" is shown. When
  the call fails, the database is unchanged, the error is logged and a destructive
  notification is shown.
\<close>

theorem clear_null_user:
  "requests (handleClearMatches None ft w) =
     requests w @ [Delete Cv_match [Not_is_null ''id'']] \<and>
   (case ft of
      No_fault \<Rightarrow>
        cv_match (db (handleClearMatches None ft w)) =
          filter (\<lambda>r. col r ''id'' = JNull) (cv_match (db w)) \<and>
        toasts (handleClearMatches None ft w) = toasts w @ [cleared_toast] \<and>
        console_errors (handleClearMatches None ft w) = console_errors w
    | _ \<Rightarrow>
        db (handleClearMatches None ft w) = db w \<and>
        toasts (handleClearMatches None ft w) = toasts w @ [clear_error_toast] \<and>
        console_errors (handleClearMatches None ft w) =
          console_errors w @ [''Error clearing matches:''])"
  by (cases ft)
     (simp_all add: handleClearMatches_No_fault handleClearMatches_fault clear_query_def
        toast_call_def handleClearMatchesCore_def clear_failed_def console_error_def
        cleared_toast_def clear_error_toast_def)

theorem clear_null_user_witness:
  "requests (handleClearMatches None No_fault world_with_matches) =
     [Delete Cv_match [Not_is_null ''id'']] \<and>
   cv_match (db (handleClearMatches None No_fault world_with_matches)) = []"
  using clear_null_user [of No_fault world_with_matches]
  by (simp add: world_with_matches_def empty_world_def empty_db_def match_of_u2_def
      match_of_u1_def col_def)

section \<open>Clearing matches twice\<close>

text \<open>
  C4. Let \<open>userId\<close> be any non-null user id and let the service accept both calls, on a
  relation whose rows all have their id. After the first call of \<open>handleClearMatches\<close>
  no match of that user is left, and the same holds after the second call. The second
  call leaves the database exactly as the first call left it, logs no error and shows
  the non-destructive notification "Matches cleared".
\<close>

theorem clear_twice:
  assumes "has_ids (cv_match (db w))"
  shows "filter (owned_by u) (cv_match (db (handleClearMatches (Some u) No_fault w))) = [] \<and>
         filter (owned_by u)
           (cv_match (db (handleClearMatches (Some u) No_fault
              (handleClearMatches (Some u) No_fault w)))) = [] \<and>
         db (handleClearMatches (Some u) No_fault (handleClearMatches (Some u) No_fault w)) =
           db (handleClearMatches (Some u) No_fault w) \<and>
         toasts (handleClearMatches (Some u) No_fault (handleClearMatches (Some u) No_fault w)) =
           toasts (handleClearMatches (Some u) No_fault w) @ [cleared_toast] \<and>
         console_errors
           (handleClearMatches (Some u) No_fault (handleClearMatches (Some u) No_fault w)) =
           console_errors (handleClearMatches (Some u) No_fault w)"
proof -
  let ?w1 = "handleClearMatches (Some u) No_fault w"
  have first: "filter (owned_by u) (cv_match (db ?w1)) = []"
    using assms by (simp add: db_handleClearMatches_No_fault clear_query_removes_owned)
  have same: "db (handleClearMatches (Some u) No_fault ?w1) = db ?w1"
    by (simp add: db_handleClearMatches_No_fault clear_query_twice)
  have msgs: "toasts (handleClearMatches (Some u) No_fault ?w1) = toasts ?w1 @ [cleared_toast]"
    "console_errors (handleClearMatches (Some u) No_fault ?w1) = console_errors ?w1"
    by (simp_all add: handleClearMatches_No_fault [of _ ?w1] toast_call_def
        handleClearMatchesCore_def cleared_toast_def)
  show ?thesis using first same msgs by simp
qed

theorem clear_twice_witness:
  "filter (owned_by ''u1'')
     (cv_match (db (handleClearMatches (Some ''u1'') No_fault world_with_matches))) = [] \<and>
   cv_match (db (handleClearMatches (Some ''u1'') No_fault
      (handleClearMatches (Some ''u1'') No_fault world_with_matches))) = [match_of_u2]"
proof -
  have h: "has_ids (cv_match (db world_with_matches))"
    by (simp add: has_ids_def world_with_matches_def match_of_u1_def match_of_u2_def col_def)
  have "cv_match (db (handleClearMatches (Some ''u1'') No_fault world_with_matches)) =
          [match_of_u2]"
    by (simp add: db_handleClearMatches_No_fault clear_query_def world_with_matches_def
        match_of_u1_def match_of_u2_def col_def empty_db_def)
  with clear_twice [OF h, of "''u1''"] show ?thesis by simp
qed

section \<open>Failures of update and remove\<close>

text \<open>
  C3. The claim asks that \<open>update\<close> and \<open>remove\<close> turn every transport failure into a
  boolean result, a logged error and a destructive notification. For \<open>remove\<close>, confirmed
  by the user, a service that answers with an error gives the logged error and the
  destructive notification, but the result is \<open>Undefined\<close>, not a boolean; \<open>update\<close> in
  the same situation gives \<open>False\<close>.
\<close>

theorem handleDelete_error_reply:
  "fst (handleDelete True (Fails ''permission denied'') (Some ''u1'') [] ''JD-A'' world_with_jobs) =
     Undefined \<and>
   map variant
     (toasts (snd (handleDelete True (Fails ''permission denied'') (Some ''u1'') [] ''JD-A''
        world_with_jobs))) =
     [Destructive] \<and>
   console_errors
     (snd (handleDelete True (Fails ''permission denied'') (Some ''u1'') [] ''JD-A''
        world_with_jobs)) =
     [''Delete error:''] \<and>
   fst (handleUpdate (Fails ''permission denied'') (Some ''u1'') [] jd_a_edited world_with_jobs) =
     False"
  by (simp add: handleDelete_Fails delete_failed_def toast_call_def console_error_def
      world_with_jobs_def empty_world_def handleUpdate_fault)

section \<open>Removing a job description\<close>

text \<open>
  The claim C7 asks for a boolean result with and without confirmation. Without
  confirmation the result is \<open>Undefined\<close>.
\<close>

theorem handleDelete_unconfirmed_result:
  "fst (handleDelete False No_fault (Some ''u1'') [] ''JD-A'' world_with_jobs) = Undefined \<and>
   fst (handleDelete False No_fault (Some ''u1'') [] ''JD-A'' world_with_jobs) \<noteq> Boolean True \<and>
   fst (handleDelete False No_fault (Some ''u1'') [] ''JD-A'' world_with_jobs) \<noteq> Boolean False"
  by (simp add: handleDelete_unconfirmed)

text \<open>
  C7, as amended. Without confirmation \<open>remove(jobId)\<close> issues no request, leaves the
  world unchanged and returns undefined. With confirmation it issues one delete, by that
  id; every other request it issues is a select, and it issues such requests exactly
  when the delete was accepted and the query of the hook is enabled: this is the
  invalidation, which runs the list query again. When the service accepts the delete,
  the result is true, exactly the rows with that id are gone from \<open>job_descriptions\<close> and
  the other relations are unchanged; the job is absent from the list that the hook holds
  when the run started by the invalidation was answered, and from the list of any later
  mount of the hook whose fetch is answered. When the delete is rejected with an
  exception, the result is false and the database is unchanged.
\<close>

theorem handleDelete_contract:
  "handleDelete False ft userId fts jobId w = (Undefined, w) \<and>
   (\<exists>rest.
      requests (snd (handleDelete True ft userId fts jobId w)) =
        requests w @ Delete Job_descriptions [Eq ''id'' (JStr jobId)] # rest \<and>
      list_all is_select rest \<and> (rest \<noteq> [] \<longleftrightarrow> ft = No_fault \<and> truthy_id userId)) \<and>
   (ft = No_fault \<longrightarrow>
      fst (handleDelete True ft userId fts jobId w) = Boolean True \<and>
      job_descriptions (db (snd (handleDelete True ft userId fts jobId w))) =
        filter (\<lambda>r. col r ''id'' \<noteq> JStr jobId) (job_descriptions (db w)) \<and>
      employer_profiles (db (snd (handleDelete True ft userId fts jobId w))) =
        employer_profiles (db w) \<and>
      cv_match (db (snd (handleDelete True ft userId fts jobId w))) = cv_match (db w) \<and>
      cv_metadata (db (snd (handleDelete True ft userId fts jobId w))) = cv_metadata (db w) \<and>
      (userId = Some u \<and> u \<noteq> [] \<and> answered retry fts \<longrightarrow>
         absent jobId (cached userId (snd (handleDelete True ft userId fts jobId w)))) \<and>
      (u' \<noteq> [] \<and> answered retry fts' \<longrightarrow>
         absent jobId
           (fst (jobDescriptions (Some u') fts'
                   (snd (handleDelete True ft userId fts jobId w)))))) \<and>
   (ft = Throws e \<longrightarrow>
      fst (handleDelete True ft userId fts jobId w) = Boolean False \<and>
      db (snd (handleDelete True ft userId fts jobId w)) = db w)"
proof -
  have a: "handleDelete False ft userId fts jobId w = (Undefined, w)"
    by (rule handleDelete_unconfirmed)
  have b: "fst (handleDelete True ft userId fts jobId w) = Boolean True" if "ft = No_fault"
    using that by (simp add: handleDelete_No_fault)
  have rows: "job_descriptions (db (snd (handleDelete True ft userId fts jobId w))) =
        filter (\<lambda>r. col r ''id'' \<noteq> JStr jobId) (job_descriptions (db w))" if "ft = No_fault"
    using that by (simp add: rows_handleDelete)
  have o1: "employer_profiles (db (snd (handleDelete True ft userId fts jobId w))) =
        employer_profiles (db w)" if "ft = No_fault"
    using that by (simp add: others_handleDelete)
  have o2: "cv_match (db (snd (handleDelete True ft userId fts jobId w))) = cv_match (db w)"
    if "ft = No_fault"
    using that by (simp add: others_handleDelete)
  have o3: "cv_metadata (db (snd (handleDelete True ft userId fts jobId w))) = cv_metadata (db w)"
    if "ft = No_fault"
    using that by (simp add: others_handleDelete)
  have c: "absent jobId (cached userId (snd (handleDelete True ft userId fts jobId w)))"
    if "ft = No_fault" "userId = Some u \<and> u \<noteq> [] \<and> answered retry fts"
    using that by (simp add: absent_cached_handleDelete)
  have l: "absent jobId
           (fst (jobDescriptions (Some u') fts'
                   (snd (handleDelete True ft userId fts jobId w))))"
    if "ft = No_fault" "u' \<noteq> [] \<and> answered retry fts'"
    using that by (simp add: absent_after_handleDelete)
  have t1: "fst (handleDelete True ft userId fts jobId w) = Boolean False" if "ft = Throws e"
    using that by (simp add: handleDelete_Throws)
  have t2: "db (snd (handleDelete True ft userId fts jobId w)) = db w" if "ft = Throws e"
    using that by (simp add: db_handleDelete)
  from a requests_handleDelete [of ft userId fts jobId w] b rows o1 o2 o3 c l t1 t2
  show ?thesis
    by (intro conjI impI) assumption+
qed

theorem handleDelete_contract_witness:
  "handleDelete False No_fault (Some ''u1'') [] ''JD-A'' world_with_cached_list =
     (Undefined, world_with_cached_list) \<and>
   ''u1'' \<noteq> [] \<and> answered retry [] \<and>
   cached (Some ''u1'') world_with_cached_list = [jd_a] \<and>
   fst (handleDelete True No_fault (Some ''u1'') [] ''JD-A'' world_with_cached_list) =
     Boolean True \<and>
   job_descriptions
     (db (snd (handleDelete True No_fault (Some ''u1'') [] ''JD-A'' world_with_cached_list))) =
     [jd_b, jd_c] \<and>
   absent ''JD-A''
     (cached (Some ''u1'')
        (snd (handleDelete True No_fault (Some ''u1'') [] ''JD-A'' world_with_cached_list))) \<and>
   fst (handleDelete True (Throws ''Failed to fetch'') (Some ''u1'') [] ''JD-A''
          world_with_cached_list) =
     Boolean False"
proof -
  note t = handleDelete_contract [of No_fault "Some ''u1''" "[]" "''JD-A''"
      world_with_cached_list "''u1''" "''u1''" "[]" "''Failed to fetch''"]
  note s = handleDelete_contract [of "Throws ''Failed to fetch''" "Some ''u1''" "[]" "''JD-A''"
      world_with_cached_list "''u1''" "''u1''" "[]" "''Failed to fetch''"]
  have h: "''u1'' \<noteq> []" by simp
  have an: "answered retry []" by simp
  have d: "cached (Some ''u1'') world_with_cached_list = [jd_a]"
    by (simp add: cached_def world_with_cached_list_def)
  have rows: "filter (\<lambda>r. col r ''id'' \<noteq> JStr ''JD-A'')
      (job_descriptions (db world_with_cached_list)) = [jd_b, jd_c]"
    by (simp add: world_with_cached_list_def world_with_jobs_def empty_world_def empty_db_def
        jd_a_def jd_b_def jd_c_def col_def)
  from t have a: "handleDelete False No_fault (Some ''u1'') [] ''JD-A'' world_with_cached_list =
     (Undefined, world_with_cached_list)"
    by (rule conjunct1)
  have nf: "No_fault = No_fault" by (rule refl)
  note u = t [THEN conjunct2, THEN conjunct2, THEN conjunct1, rule_format, OF nf]
  note b = u [THEN conjunct1]
  note c = u [THEN conjunct2, THEN conjunct1, THEN trans, OF rows]
  have "Some ''u1'' = Some ''u1'' \<and> ''u1'' \<noteq> [] \<and> answered retry []" by simp
  note e = u [THEN conjunct2, THEN conjunct2, THEN conjunct2, THEN conjunct2, THEN conjunct2,
      THEN conjunct1, rule_format, OF this]
  have "Throws ''Failed to fetch'' = Throws ''Failed to fetch''" by (rule refl)
  note f = s [THEN conjunct2, THEN conjunct2, THEN conjunct2, rule_format, OF this,
      THEN conjunct1]
  from a h an d b c e f show ?thesis by (intro conjI)
qed

section \<open>Updating a job description\<close>

text \<open>
  C6. For every job description object passed to \<open>update\<close>, whatever the fate of the
  call. The operation issues one update, keyed by the id of the object, whose payload
  holds fields among \<open>job_title\<close>, \<open>company_name\<close>, \<open>location\<close>, \<open>original_text\<close>,
  \<open>job_requirements\<close> and \<open>benefits\<close> only, with the values of the object; every other
  request it issues is a select, and it issues such requests exactly when the update
  was accepted and the query of the hook is enabled: this is the invalidation, which
  runs the list query again. Every row of \<open>job_descriptions\<close> keeps its place, keeps its
  \<open>id\<close>, \<open>user_id\<close>, \<open>employer_profile_id\<close>, \<open>agent_id\<close> and \<open>created_at\<close>, and agrees
  with its former self on every field that is not one of the six or that the object
  leaves undefined; a row with another id is unchanged altogether; the other relations
  are unchanged. The result is true exactly when the service accepted the update. When
  it did not, the database and the cache are as they were. When it did, the rows with
  that id hold, in each of the six fields that the object defines, the value of the
  object; the list that the hook holds when the run started by the invalidation was
  answered is the list of the database as updated, and so is the list of any later
  mount of the hook whose fetch is answered.
\<close>

theorem handleUpdate_frame:
  "(\<exists>vals rest.
      requests (snd (handleUpdate ft userId fts jd w)) =
        requests w @ Update Job_descriptions vals [Eq ''id'' (col jd ''id'')] # rest \<and>
      mutable_payload jd vals \<and> list_all is_select rest \<and>
      (rest \<noteq> [] \<longleftrightarrow> ft = No_fault \<and> truthy_id userId)) \<and>
   list_all2 (untouched jd) (job_descriptions (db w))
     (job_descriptions (db (snd (handleUpdate ft userId fts jd w)))) \<and>
   list_all2 keeps_fixed (job_descriptions (db w))
     (job_descriptions (db (snd (handleUpdate ft userId fts jd w)))) \<and>
   employer_profiles (db (snd (handleUpdate ft userId fts jd w))) = employer_profiles (db w) \<and>
   cv_match (db (snd (handleUpdate ft userId fts jd w))) = cv_match (db w) \<and>
   cv_metadata (db (snd (handleUpdate ft userId fts jd w))) = cv_metadata (db w) \<and>
   (fst (handleUpdate ft userId fts jd w) \<longleftrightarrow> ft = No_fault) \<and>
   (ft \<noteq> No_fault \<longrightarrow>
      db (snd (handleUpdate ft userId fts jd w)) = db w \<and>
      jd_cache (snd (handleUpdate ft userId fts jd w)) = jd_cache w) \<and>
   (ft = No_fault \<longrightarrow>
      list_all (persisted jd) (job_descriptions (db (snd (handleUpdate ft userId fts jd w)))) \<and>
      (userId = Some u \<and> u \<noteq> [] \<and> answered retry fts \<longrightarrow>
         cached userId (snd (handleUpdate ft userId fts jd w)) =
           fresh_list (db (snd (handleUpdate ft userId fts jd w))) u) \<and>
      (u' \<noteq> [] \<and> answered retry fts' \<longrightarrow>
         fst (jobDescriptions (Some u') fts' (snd (handleUpdate ft userId fts jd w))) =
           fresh_list (db (snd (handleUpdate ft userId fts jd w))) u'))"
proof -
  let ?w' = "snd (handleUpdate ft userId fts jd w)"
  from requests_handleUpdate [of ft userId fts jd w] obtain rest where
    r: "requests ?w' = requests w @ update_request jd # rest \<and>
        list_all is_select rest \<and> (rest \<noteq> [] \<longleftrightarrow> ft = No_fault \<and> truthy_id userId)" ..
  have rq: "\<exists>vals rest.
      requests ?w' = requests w @ Update Job_descriptions vals [Eq ''id'' (col jd ''id'')] # rest \<and>
      mutable_payload jd vals \<and> list_all is_select rest \<and>
      (rest \<noteq> [] \<longleftrightarrow> ft = No_fault \<and> truthy_id userId)"
  proof (intro exI conjI)
    show "requests ?w' =
        requests w @ Update Job_descriptions (updateData jd) [Eq ''id'' (col jd ''id'')] # rest"
      using r [THEN conjunct1] by (simp only: update_request_def)
    show "mutable_payload jd (updateData jd)" by (rule mutable_payload_updateData)
    show "list_all is_select rest" by (rule r [THEN conjunct2, THEN conjunct1])
    show "rest \<noteq> [] \<longleftrightarrow> ft = No_fault \<and> truthy_id userId"
      by (rule r [THEN conjunct2, THEN conjunct2])
  qed
  have frame: "list_all2 (untouched jd) (job_descriptions (db w)) (job_descriptions (db ?w'))"
    by (cases "ft = No_fault")
       (simp_all add: db_handleUpdate exec_update_request list_all2_map2 list_all2_same
          untouched_updated_row untouched_refl)
  have fixed: "list_all2 keeps_fixed (job_descriptions (db w)) (job_descriptions (db ?w'))"
    by (cases "ft = No_fault")
       (simp_all add: db_handleUpdate exec_update_request list_all2_map2 list_all2_same
          keeps_fixed_updated_row keeps_fixed_refl)
  have o1: "employer_profiles (db ?w') = employer_profiles (db w)"
    by (simp add: db_handleUpdate exec_update_request)
  have o2: "cv_match (db ?w') = cv_match (db w)"
    by (simp add: db_handleUpdate exec_update_request)
  have o3: "cv_metadata (db ?w') = cv_metadata (db w)"
    by (simp add: db_handleUpdate exec_update_request)
  have ok: "fst (handleUpdate ft userId fts jd w) \<longleftrightarrow> ft = No_fault"
    by (cases "ft = No_fault") (simp_all add: handleUpdate_No_fault handleUpdate_fault)
  have f1: "db ?w' = db w" if "ft \<noteq> No_fault"
    using that by (simp add: db_handleUpdate)
  have f2: "jd_cache ?w' = jd_cache w" if "ft \<noteq> No_fault"
    using that by (rule cache_handleUpdate_fault)
  have p: "list_all (persisted jd) (job_descriptions (db ?w'))" if "ft = No_fault"
    using that by (simp add: db_handleUpdate exec_update_request list_all_iff persisted_updated_row)
  have c: "cached userId ?w' = fresh_list (db ?w') u"
    if "ft = No_fault" "userId = Some u \<and> u \<noteq> [] \<and> answered retry fts"
    using that by (simp add: cached_handleUpdate)
  have l: "fst (jobDescriptions (Some u') fts' ?w') = fresh_list (db ?w') u'"
    if "u' \<noteq> [] \<and> answered retry fts'"
    using that by (simp add: jobDescriptions_answered)
  from rq frame fixed o1 o2 o3 ok f1 f2 p c l show ?thesis
    by (intro conjI impI) assumption+
qed

theorem handleUpdate_frame_witness:
  "''u1'' \<noteq> [] \<and> answered retry [] \<and>
   col jd_a_edited ''id'' = JStr ''JD-A'' \<and> col jd_a_edited ''user_id'' = JStr ''u9'' \<and>
   fst (handleUpdate No_fault (Some ''u1'') [] jd_a_edited world_with_cached_list) \<and>
   map (\<lambda>r. (col r ''id'', col r ''user_id'', col r ''job_title'', col r ''company_name''))
     (job_descriptions
        (db (snd (handleUpdate No_fault (Some ''u1'') [] jd_a_edited world_with_cached_list)))) =
     [(JStr ''JD-A'', JStr ''u1'', JStr ''Staff Engineer'', JStr ''Acme''),
      (JStr ''JD-B'', JStr ''u1'', JStr ''Designer'', JStr ''Acme''),
      (JStr ''JD-C'', JStr ''u2'', JStr ''Analyst'', JStr ''Other'')] \<and>
   map (\<lambda>item. (col item ''id'', col item ''job_title''))
     (cached (Some ''u1'')
        (snd (handleUpdate No_fault (Some ''u1'') [] jd_a_edited world_with_cached_list))) =
     [(JStr ''JD-B'', JStr ''Designer''), (JStr ''JD-A'', JStr ''Staff Engineer'')] \<and>
   \<not> fst (handleUpdate (Fails ''permission denied'') (Some ''u1'') [] jd_a_edited
            world_with_cached_list) \<and>
   db (snd (handleUpdate (Fails ''permission denied'') (Some ''u1'') [] jd_a_edited
              world_with_cached_list)) =
     db world_with_cached_list"
proof -
  let ?w' = "snd (handleUpdate No_fault (Some ''u1'') [] jd_a_edited world_with_cached_list)"
  note t = handleUpdate_frame [of No_fault "Some ''u1''" "[]" jd_a_edited
      world_with_cached_list "''u1''" "''u1''" "[]"]
  note s = handleUpdate_frame [of "Fails ''permission denied''" "Some ''u1''" "[]" jd_a_edited
      world_with_cached_list "''u1''" "''u1''" "[]"]
  have h: "''u1'' \<noteq> []" by simp
  have an: "answered retry []" by simp
  have i1: "col jd_a_edited ''id'' = JStr ''JD-A''" by (simp add: jd_a_edited_def col_def)
  have i2: "col jd_a_edited ''user_id'' = JStr ''u9''" by (simp add: jd_a_edited_def col_def)
  have rows: "job_descriptions (db world_with_cached_list) = [jd_a, jd_b, jd_c]"
    by (simp add: world_with_cached_list_def world_with_jobs_def empty_world_def empty_db_def)
  from t have ok: "fst (handleUpdate No_fault (Some ''u1'') [] jd_a_edited world_with_cached_list)"
    by simp
  from t have u: "list_all2 (untouched jd_a_edited) [jd_a, jd_b, jd_c] (job_descriptions (db ?w'))"
    unfolding rows by (rule conjunct2 [THEN conjunct1])
  from t have p: "list_all (persisted jd_a_edited) (job_descriptions (db ?w'))"
    by simp
  from u obtain a b c where abc: "job_descriptions (db ?w') = [a, b, c]"
      "untouched jd_a_edited jd_a a" "untouched jd_a_edited jd_b b" "untouched jd_a_edited jd_c c"
    by (auto simp: list_all2_Cons1)
  from abc(3) have b: "b = jd_b"
    by (simp add: untouched_def jd_a_edited_def jd_b_def col_def)
  from abc(4) have c: "c = jd_c"
    by (simp add: untouched_def jd_a_edited_def jd_c_def col_def)
  from abc(2) have a1: "col a ''id'' = JStr ''JD-A''" "col a ''user_id'' = JStr ''u1''"
    by (simp_all add: untouched_def mutable_fields_def jd_a_def col_def)
  from p abc(1) have "persisted jd_a_edited a" by simp
  with a1(1) have a2: "col a ''job_title'' = JStr ''Staff Engineer''"
      "col a ''company_name'' = JStr ''Acme''"
    by (simp_all add: persisted_def mutable_fields_def jd_a_edited_def col_def)
  have r: "map (\<lambda>r. (col r ''id'', col r ''user_id'', col r ''job_title'', col r ''company_name''))
     (job_descriptions (db ?w')) =
     [(JStr ''JD-A'', JStr ''u1'', JStr ''Staff Engineer'', JStr ''Acme''),
      (JStr ''JD-B'', JStr ''u1'', JStr ''Designer'', JStr ''Acme''),
      (JStr ''JD-C'', JStr ''u2'', JStr ''Analyst'', JStr ''Other'')]"
    unfolding abc(1) b c using a1 a2 by (simp add: jd_b_def jd_c_def col_def)
  from t h an have "cached (Some ''u1'') ?w' = fresh_list (db ?w') ''u1''" by simp
  moreover have "map (\<lambda>item. (col item ''id'', col item ''job_title''))
      (fresh_list (db ?w') ''u1'') =
      map (\<lambda>r. (col r ''id'', col r ''job_title'')) (listing (db ?w') ''u1'')"
    by (simp add: fresh_list_def col_as_item o_def)
  moreover have "map (\<lambda>r. (col r ''id'', col r ''job_title'')) (listing (db ?w') ''u1'') =
      [(JStr ''JD-B'', JStr ''Designer''), (JStr ''JD-A'', JStr ''Staff Engineer'')]"
    unfolding db_handleUpdate
    by (simp add: listing_def update_request_def updateData_def fields_def whitelist_def
        jd_a_edited_def world_with_cached_list_def world_with_jobs_def empty_world_def
        empty_db_def jd_a_def jd_b_def jd_c_def owned_by_def col_def assign_def Let_def)
  ultimately have k: "map (\<lambda>item. (col item ''id'', col item ''job_title''))
      (cached (Some ''u1'') ?w') =
      [(JStr ''JD-B'', JStr ''Designer''), (JStr ''JD-A'', JStr ''Staff Engineer'')]"
    by simp
  from s have f1: "\<not> fst (handleUpdate (Fails ''permission denied'') (Some ''u1'') [] jd_a_edited
            world_with_cached_list)" by simp
  from s have f2: "db (snd (handleUpdate (Fails ''permission denied'') (Some ''u1'') []
      jd_a_edited world_with_cached_list)) = db world_with_cached_list" by simp
  from h an i1 i2 ok r k f1 f2 show ?thesis by (intro conjI)
qed

section \<open>The job description list of a user\<close>

text \<open>
  C5. A non-null \<open>userId\<close> is the id of the user of a session (the hook sets it from
  \<^verbatim>\<open>data.session.user.id\<close> only), which is not the empty string. For every such
  \<open>userId\<close>, when the service answers one of the attempts of the fetch, the list of the
  hook has one item for each job description whose \<open>user_id\<close> equals \<open>userId\<close> and for no
  other row: the items agree, field by field (the embedded employer profile apart), with
  a rearrangement of exactly those rows, they are ordered newest first by \<open>created_at\<close>,
  and each is owned by \<open>userId\<close>. This holds whatever list the cache held before. When
  every attempt fails the hook hands out the list it had fetched before. In both cases
  the hook hands out no description owned by a different user, the cache holding for
  each user lists fetched for that user; and such is the cache afterwards. Reading the
  list changes nothing in the database.
\<close>

theorem list_for_user:
  assumes "u \<noteq> []"
  shows "(answered retry fts \<longrightarrow>
            list_all2 same_job (fst (jobDescriptions (Some u) fts w)) (listing (db w) u) \<and>
            sorted_wrt newest_first (fst (jobDescriptions (Some u) fts w)) \<and>
            list_all (owned_by u) (fst (jobDescriptions (Some u) fts w))) \<and>
         mset (listing (db w) u) = mset (filter (owned_by u) (job_descriptions (db w))) \<and>
         (\<not> answered retry fts \<longrightarrow>
            fst (jobDescriptions (Some u) fts w) = cached (Some u) w) \<and>
         (cache_owned w \<longrightarrow>
            list_all (owned_by u) (fst (jobDescriptions (Some u) fts w)) \<and>
            cache_owned (snd (jobDescriptions (Some u) fts w))) \<and>
         db (snd (jobDescriptions (Some u) fts w)) = db w"
proof -
  let ?items = "fst (jobDescriptions (Some u) fts w)"
  have fresh: "list_all2 same_job ?items (listing (db w) u) \<and>
      sorted_wrt newest_first ?items \<and> list_all (owned_by u) ?items"
    if "answered retry fts"
    unfolding jobDescriptions_answered [OF assms that]
    using same_job_fresh_list sorted_fresh_list owned_fresh_list by (intro conjI)
  have stale: "?items = cached (Some u) w" if "\<not> answered retry fts"
    using assms that by (rule jobDescriptions_failed)
  have own: "list_all (owned_by u) ?items \<and> cache_owned (snd (jobDescriptions (Some u) fts w))"
    if "cache_owned w"
    using jobDescriptions_owned [OF assms that] by (intro conjI)
  from fresh mset_listing stale own db_jobDescriptions show ?thesis
    by (intro conjI impI) (assumption | blast)+
qed

theorem list_for_user_witness:
  "''u1'' \<noteq> [] \<and> answered retry [Fails ''timeout''] \<and> cache_owned world_with_cached_list \<and>
   cached (Some ''u1'') world_with_cached_list = [jd_a] \<and>
   map (\<lambda>item. col item ''id'')
     (fst (jobDescriptions (Some ''u1'') [Fails ''timeout''] world_with_cached_list)) =
     [JStr ''JD-B'', JStr ''JD-A''] \<and>
   list_all (owned_by ''u1'')
     (fst (jobDescriptions (Some ''u1'') [Fails ''timeout''] world_with_cached_list))"
proof -
  have h: "''u1'' \<noteq> []" by simp
  have a: "answered retry [Fails ''timeout'']" by (simp add: retry_def eval_nat_numeral)
  have c: "cache_owned world_with_cached_list"
    by (simp add: cache_owned_def world_with_cached_list_def owned_by_def jd_a_def col_def)
  have d: "cached (Some ''u1'') world_with_cached_list = [jd_a]"
    by (simp add: cached_def world_with_cached_list_def)
  note t = list_for_user [OF h, of "[Fails ''timeout'']" world_with_cached_list]
  from t a have i: "list_all2 same_job
      (fst (jobDescriptions (Some ''u1'') [Fails ''timeout''] world_with_cached_list))
      (listing (db world_with_cached_list) ''u1'')" by blast
  from t c have o: "list_all (owned_by ''u1'')
      (fst (jobDescriptions (Some ''u1'') [Fails ''timeout''] world_with_cached_list))" by blast
  have l: "listing (db world_with_cached_list) ''u1'' = [jd_b, jd_a]"
    by (simp add: listing_def world_with_cached_list_def world_with_jobs_def empty_world_def
        empty_db_def owned_by_def jd_a_def jd_b_def jd_c_def col_def)
  from i have e: "map (\<lambda>item. col item ''id'')
      (fst (jobDescriptions (Some ''u1'') [Fails ''timeout''] world_with_cached_list)) =
      [JStr ''JD-B'', JStr ''JD-A'']"
    unfolding l
    by (auto simp: list_all2_Cons2 same_job_def jd_a_def jd_b_def col_def)
  from h a c d e o show ?thesis by (intro conjI)
qed

section \<open>The candidate search\<close>

text \<open>
  The claim C9 reads the search as a substring search. The search term goes into the
  pattern as it is, so the term \<open>_\<close> matches every name of at least one character: the
  candidate named Bob is returned, and the name does not contain an underscore.
\<close>

theorem search_underscore:
  "fst (searchCandidates ''_'' No_fault world_with_candidates) =
     Inr [project search_columns candidate_bob, project search_columns candidate_alice] \<and>
   col (project search_columns candidate_bob) ''name'' = JStr ''Bob'' \<and>
   \<not> contains_ci ''_'' ''Bob'' \<and>
   \<not> matches_substring ''_'' (project search_columns candidate_bob)"
  by (simp add: searchCandidates_No_fault world_with_candidates_def empty_db_def
      matches_pattern_def matches_substring_def contains_ci_def ilike_def name_pattern_def
      candidate_bob_def
      candidate_alice_def col_def project_def search_columns_def to_lower_def
      star_to_percent_def)

text \<open>
  C9, as amended. An empty search term fails with "Please enter a search query" before
  any request is issued. A non-empty search term issues one select on \<open>cv_metadata\<close> and
  leaves the database unchanged; when the service answers, the operation returns at most
  10 records, each of whose name matches the ILIKE pattern \<open>%searchTerm%\<close>; when the
  search term has none of the characters \<open>%\<close>, \<open>_\<close>, \<open>*\<close> and backslash, each returned
  name contains the search term as a case-insensitive substring. The operation fails
  only when the call does.
\<close>

theorem searchCandidates_contract:
  "searchCandidates [] ft w = (Inl ''Please enter a search query'', w) \<and>
   (searchTerm \<noteq> [] \<longrightarrow>
      requests (snd (searchCandidates searchTerm ft w)) =
        requests w @ [search_query searchTerm] \<and>
      db (snd (searchCandidates searchTerm ft w)) = db w \<and>
      (case fst (searchCandidates searchTerm ft w) of
         Inl e \<Rightarrow> ft \<noteq> No_fault
       | Inr rows \<Rightarrow>
           ft = No_fault \<and> length rows \<le> 10 \<and> list_all (matches_pattern searchTerm) rows \<and>
           (wildcard_free searchTerm \<longrightarrow> list_all (matches_substring searchTerm) rows)))"
proof -
  have empty: "searchCandidates [] ft w = (Inl ''Please enter a search query'', w)"
    by (simp add: searchCandidates_def)
  have rest: "requests (snd (searchCandidates searchTerm ft w)) =
        requests w @ [search_query searchTerm] \<and>
      db (snd (searchCandidates searchTerm ft w)) = db w \<and>
      (case fst (searchCandidates searchTerm ft w) of
         Inl e \<Rightarrow> ft \<noteq> No_fault
       | Inr rows \<Rightarrow>
           ft = No_fault \<and> length rows \<le> 10 \<and> list_all (matches_pattern searchTerm) rows \<and>
           (wildcard_free searchTerm \<longrightarrow> list_all (matches_substring searchTerm) rows))"
    if ne: "searchTerm \<noteq> []"
  proof (cases "ft = No_fault")
    case True
    have "list_all (matches_pattern searchTerm)
        (map (project search_columns)
           (take 10 (filter (matches_pattern searchTerm) (cv_metadata (db w)))))"
      by (auto simp: list_all_iff dest: in_set_takeD)
    moreover from this have "list_all (matches_substring searchTerm)
        (map (project search_columns)
           (take 10 (filter (matches_pattern searchTerm) (cv_metadata (db w)))))"
      if "wildcard_free searchTerm"
      using matches_substring_if_wildcard_free [OF that] by (simp add: list_all_iff)
    ultimately show ?thesis
      using True ne by (simp add: searchCandidates_No_fault)
  next
    case False
    from searchCandidates_fault [OF ne False, of w] show ?thesis
      using False by auto
  qed
  from empty rest show ?thesis by blast
qed

theorem searchCandidates_contract_witness:
  "''rob'' \<noteq> [] \<and> wildcard_free ''rob'' \<and>
   fst (searchCandidates ''rob'' No_fault world_with_candidates) =
     Inr [project search_columns candidate_alice] \<and>
   list_all (matches_substring ''rob'') [project search_columns candidate_alice]"
proof -
  have ne: "''rob'' \<noteq> []" by simp
  have wf: "wildcard_free ''rob''" by (simp add: wildcard_free_def)
  have res: "fst (searchCandidates ''rob'' No_fault world_with_candidates) =
      Inr [project search_columns candidate_alice]"
    by (simp add: searchCandidates_No_fault world_with_candidates_def empty_db_def
        matches_pattern_def ilike_def name_pattern_def candidate_bob_def candidate_alice_def
        col_def to_lower_def star_to_percent_def)
  note t = searchCandidates_contract [where searchTerm = "''rob''" and ft = No_fault
      and w = world_with_candidates, THEN conjunct2, THEN mp, OF ne,
      THEN conjunct2, THEN conjunct2]
  from t wf have "list_all (matches_substring ''rob'') [project search_columns candidate_alice]"
    unfolding res by simp
  with ne wf res show ?thesis by (intro conjI)
qed

section \<open>One employer profile per user\<close>

text \<open>
  C10. The claim asks that a user who has a profile row gets it updated in place, and
  that an insert is performed only when the user has no row. \<open>saveProfile\<close> reads the
  data of its check for an existing profile and never the error of that call, although
  it reads the error of each of its other calls. So for the user \<open>u1\<close>, who has the row
  \<open>p1\<close>, and no profile passed in: when the check is answered with an error, the
  operation takes the user to have no row and issues an insert; the service refuses it
  under the unique constraint on \<open>user_id\<close>, the result is that error, and the row of the
  user is as it was, not updated. With the check answered, the same call issues an
  update by the id of that row, and the row holds the new values.
\<close>

theorem saveProfile_check_error:
  "filter (owned_by ''u1'') (employer_profiles (db world_with_profiles)) = [profile_p1] \<and>
   requests
     (snd (saveProfile form_values None save_time (Auth_user (Some ''u1''))
             (Fails ''upstream request timeout'') No_fault No_fault world_with_profiles)) =
     [Select Employer_profiles All_columns [Eq ''user_id'' (JStr ''u1'')] Unordered None,
      Insert Employer_profiles
        (profileData ''u1'' form_values @
         [(''created_at'', JStr save_time), (''updated_at'', JStr save_time)])] \<and>
   fst (saveProfile form_values None save_time (Auth_user (Some ''u1''))
          (Fails ''upstream request timeout'') No_fault No_fault world_with_profiles) =
     Inl ''duplicate key value violates unique constraint'' \<and>
   employer_profiles
     (db (snd (saveProfile form_values None save_time (Auth_user (Some ''u1''))
                 (Fails ''upstream request timeout'') No_fault No_fault world_with_profiles))) =
     [profile_p1, profile_p2] \<and>
   requests
     (snd (saveProfile form_values None save_time (Auth_user (Some ''u1''))
             No_fault No_fault No_fault world_with_profiles)) =
     [Select Employer_profiles All_columns [Eq ''user_id'' (JStr ''u1'')] Unordered None,
      Update Employer_profiles
        (profileData ''u1'' form_values @ [(''updated_at'', JStr save_time)])
        [Eq ''id'' (JStr ''p1'')],
      Select Employer_profiles All_columns [Eq ''user_id'' (JStr ''u1'')] Unordered None] \<and>
   map (\<lambda>r. (col r ''id'', col r ''user_id'', col r ''company_name''))
     (employer_profiles
        (db (snd (saveProfile form_values None save_time (Auth_user (Some ''u1''))
                    No_fault No_fault No_fault world_with_profiles)))) =
     [(JStr ''p1'', JStr ''u1'', JStr ''Acme Ltd''), (JStr ''p2'', JStr ''u2'', JStr ''Other'')]"
proof -
  let ?extra = "[(''updated_at'', JStr save_time)]"
  let ?p1 = "assign (profileData ''u1'' form_values @ ?extra) profile_p1"
  let ?upd = "update_profile (profileData ''u1'' form_values) save_time (JStr ''p1'')"
  have reqs: "requests world_with_profiles = []"
    by (simp add: world_with_profiles_def empty_world_def)
  have errs: "console_errors world_with_profiles = []"
    by (simp add: world_with_profiles_def empty_world_def)
  have profs: "employer_profiles (db world_with_profiles) = [profile_p1, profile_p2]"
    by (simp add: world_with_profiles_def empty_world_def empty_db_def)
  have p1: "col profile_p1 ''id'' = JStr ''p1''" "owned_by ''u1'' profile_p1"
    by (simp_all add: profile_p1_def owned_by_def col_def)
  have p2: "col profile_p2 ''id'' = JStr ''p2''" "col profile_p2 ''user_id'' = JStr ''u2''"
    "col profile_p2 ''company_name'' = JStr ''Other''"
    by (simp_all add: profile_p2_def col_def)
  from p2(2) have p2': "\<not> owned_by ''u1'' profile_p2" by (simp add: owned_by_def)
  have owned: "filter (owned_by ''u1'') (employer_profiles (db world_with_profiles)) =
      [profile_p1]"
    by (simp add: profs p1 p2')
  have "profile_p1 \<in> set (employer_profiles (db world_with_profiles))" by (simp add: profs)
  from saveProfile_check_failed [OF this p1(2)]
  have failed: "saveProfile form_values None save_time (Auth_user (Some ''u1''))
          (Fails ''upstream request timeout'') No_fault No_fault world_with_profiles =
      (Inl ''duplicate key value violates unique constraint'',
       world_with_profiles
         \<lparr>requests := [by_user ''u1'', insert_profile (profileData ''u1'' form_values) save_time],
          console_errors := [''Error saving profile:'', ''Error in saveProfile:'']\<rparr>)"
    by (simp add: reqs errs)
  have o: "owned_by ''u1'' ?p1"
    by (rule owned_by_assign_profileData) simp
  then have o': "col ?p1 ''user_id'' = JStr ''u1''" by (simp add: owned_by_def)
  have pd: "profileData ''u1'' form_values =
      [(''user_id'', JStr ''u1''), (''company_name'', JStr ''Acme Ltd''),
       (''registration_number'', JStr ''R-1''), (''country'', JStr ''UK''),
       (''state'', JStr ''Yorkshire''), (''industry'', JStr ''IT''),
       (''sub_industry'', JStr ''Software''), (''sub_sub_industry'', JStr ''Tools''),
       (''contact_person'', JStr ''Ann Lee''), (''designation'', JStr ''HR lead''),
       (''email'', JStr ''hr@acme.example''), (''phone'', JStr ''0123456789''),
       (''alternate_contact'', JNull), (''is_verified'', JBool False),
       (''is_approved'', JBool False), (''profile_completion'', JNum 100)]"
    by (simp add: profileData_def fields_def profile_fields_def form_values_def col_def)
  have "''id'' \<notin> fst ` set (profileData ''u1'' form_values @ ?extra)"
    unfolding pd by simp
  then have "col ?p1 ''id'' = col profile_p1 ''id''" by (rule col_assign_other)
  with p1(1) have i: "col ?p1 ''id'' = JStr ''p1''" by simp
  have "distinct (map fst (profileData ''u1'' form_values @ ?extra))"
    unfolding pd by simp
  moreover have "map_of (profileData ''u1'' form_values @ ?extra) ''company_name'' =
      Some (JStr ''Acme Ltd'')"
    unfolding pd by simp
  ultimately have c: "col ?p1 ''company_name'' = JStr ''Acme Ltd''" by (rule col_assign_in)
  have e_upd: "exec ?upd (db world_with_profiles) =
      (Data [?p1], (db world_with_profiles)\<lparr>employer_profiles := [?p1, profile_p2]\<rparr>)"
    by (simp add: update_profile_def Let_def profs p1 p2 o' unique_user_id_def)
  have saved: "saveProfile form_values None save_time (Auth_user (Some ''u1''))
          No_fault No_fault No_fault world_with_profiles =
      (Inr ?p1,
       world_with_profiles
         \<lparr>requests := [by_user ''u1'', ?upd, by_user ''u1''],
          db := (db world_with_profiles)\<lparr>employer_profiles := [?p1, profile_p2]\<rparr>\<rparr>)"
    by (simp add: saveProfile_def write_profile_def save_without_id_def supabase_No_fault
        exec_by_user profs reqs p1 p2' o e_upd)
  show ?thesis
    unfolding failed saved
    by (simp add: profs p1 p2' i o' c p2 by_user_def insert_profile_def update_profile_def)
qed

end
